theory Spec2Isabelle
  imports Complex_Main "HOL-Library.Char_ord" "HOL-Library.List_Lexorder" "HOL-Library.Multiset"
begin

section \<open>JavaScript numbers\<close>

text \<open>
  A JavaScript number is an IEEE double. The model keeps the three non-finite values apart
  and takes the finite ones as exact rationals: finite arithmetic neither rounds nor
  overflows, and the two zeros are one (a division of a non-zero number by zero gives the
  infinity of the sign of the numerator). Every statement below about sums and ratios of
  finite values is therefore a statement "within floating-point tolerance".
\<close>

datatype jsnum = Fin rat | PInf | NInf | NaN

fun isFinite :: "jsnum \<Rightarrow> bool" where
  "isFinite (Fin _) = True"
| "isFinite _ = False"

definition inf_of_sign :: "rat \<Rightarrow> jsnum" where
  "inf_of_sign s = (if s = 0 then NaN else if 0 < s then PInf else NInf)"

fun js_sgn :: "jsnum \<Rightarrow> rat" where
  "js_sgn (Fin a) = sgn a"
| "js_sgn PInf = 1"
| "js_sgn NInf = - 1"
| "js_sgn NaN = 0"

fun js_add :: "jsnum \<Rightarrow> jsnum \<Rightarrow> jsnum" where
  "js_add (Fin a) (Fin b) = Fin (a + b)"
| "js_add NaN _ = NaN"
| "js_add _ NaN = NaN"
| "js_add PInf NInf = NaN"
| "js_add NInf PInf = NaN"
| "js_add PInf _ = PInf"
| "js_add _ PInf = PInf"
| "js_add NInf _ = NInf"
| "js_add _ NInf = NInf"

fun js_neg :: "jsnum \<Rightarrow> jsnum" where
  "js_neg (Fin a) = Fin (- a)"
| "js_neg PInf = NInf"
| "js_neg NInf = PInf"
| "js_neg NaN = NaN"

definition js_sub :: "jsnum \<Rightarrow> jsnum \<Rightarrow> jsnum" where
  "js_sub x y = js_add x (js_neg y)"

fun js_mul :: "jsnum \<Rightarrow> jsnum \<Rightarrow> jsnum" where
  "js_mul (Fin a) (Fin b) = Fin (a * b)"
| "js_mul NaN _ = NaN"
| "js_mul _ NaN = NaN"
| "js_mul x y = inf_of_sign (js_sgn x * js_sgn y)"

fun js_div :: "jsnum \<Rightarrow> jsnum \<Rightarrow> jsnum" where
  "js_div (Fin a) (Fin b) = (if b = 0 then inf_of_sign (sgn a) else Fin (a / b))"
| "js_div NaN _ = NaN"
| "js_div _ NaN = NaN"
| "js_div (Fin a) _ = Fin 0"
| "js_div PInf (Fin b) = (if 0 \<le> b then PInf else NInf)"
| "js_div NInf (Fin b) = (if 0 \<le> b then NInf else PInf)"
| "js_div _ _ = NaN"

text \<open>The comparisons \<open>x > y\<close> and \<open>x <= y\<close>; both are false when an operand is NaN.\<close>

fun js_gt :: "jsnum \<Rightarrow> jsnum \<Rightarrow> bool" where
  "js_gt (Fin a) (Fin b) = (b < a)"
| "js_gt NaN _ = False"
| "js_gt _ NaN = False"
| "js_gt PInf y = (y \<noteq> PInf)"
| "js_gt NInf _ = False"
| "js_gt (Fin a) PInf = False"
| "js_gt (Fin a) NInf = True"

fun js_le :: "jsnum \<Rightarrow> jsnum \<Rightarrow> bool" where
  "js_le (Fin a) (Fin b) = (a \<le> b)"
| "js_le NaN _ = False"
| "js_le _ NaN = False"
| "js_le NInf _ = True"
| "js_le PInf y = (y = PInf)"
| "js_le (Fin a) PInf = True"
| "js_le (Fin a) NInf = False"


text \<open>\<open>x ?? 0\<close> on a field of type \<open>number | undefined\<close> (\<open>None\<close> is \<open>undefined\<close>).\<close>

definition or_zero :: "jsnum option \<Rightarrow> jsnum" where
  "or_zero x = (case x of None \<Rightarrow> Fin 0 | Some v \<Rightarrow> v)"

text \<open>\<open>Number.isFinite(v) ? v : 0\<close>.\<close>

definition finite_or_zero :: "jsnum \<Rightarrow> jsnum" where
  "finite_or_zero v = (if isFinite v then v else Fin 0)"

section \<open>Strings\<close>

text \<open>
  A string is the sequence of its UTF-8 bytes. \<open>toLowerCase\<close> maps the letters A to Z
  and the Kelvin sign (U+212A, the bytes E2 84 AA), the one character outside ASCII whose
  lowercase is an ASCII letter. Every other character outside ASCII is left as it is: its
  lowercase is again outside ASCII, and the keys the code compares with are ASCII.
\<close>

definition lower_char :: "char \<Rightarrow> char" where
  "lower_char c =
     (if 65 \<le> (of_char c :: nat) \<and> (of_char c :: nat) \<le> 90
      then char_of (of_char c + (32 :: nat)) else c)"

definition kelvin :: "char \<Rightarrow> char \<Rightarrow> char \<Rightarrow> bool" where
  "kelvin a b c = ((of_char a :: nat) = 226 \<and> (of_char b :: nat) = 132 \<and> (of_char c :: nat) = 170)"

fun toLowerCase :: "string \<Rightarrow> string" where
  "toLowerCase (a # b # c # cs) =
     (if kelvin a b c then CHR ''k'' # toLowerCase cs else lower_char a # toLowerCase (b # c # cs))"
| "toLowerCase (a # cs) = lower_char a # toLowerCase cs"
| "toLowerCase [] = []"

text \<open>
  \<open>trim\<close> strips white space and line terminators from both ends: the six ASCII ones
  (tab, line feed, vertical tab, form feed, carriage return, space), U+00A0 (two bytes),
  and U+1680, U+2000 to U+200A, U+2028, U+2029, U+202F, U+205F, U+3000 and U+FEFF (three
  bytes each).
\<close>

definition is_space :: "char \<Rightarrow> bool" where
  "is_space c = ((of_char c :: nat) \<in> {9, 10, 11, 12, 13, 32})"

definition is_space2 :: "char \<Rightarrow> char \<Rightarrow> bool" where
  "is_space2 a b = ((of_char a :: nat) = 194 \<and> (of_char b :: nat) = 160)"

definition is_space3 :: "char \<Rightarrow> char \<Rightarrow> char \<Rightarrow> bool" where
  "is_space3 a b c =
     (((of_char a :: nat), (of_char b :: nat), (of_char c :: nat)) \<in>
        {(225, 154, 128), (226, 128, 128), (226, 128, 129), (226, 128, 130), (226, 128, 131),
         (226, 128, 132), (226, 128, 133), (226, 128, 134), (226, 128, 135), (226, 128, 136),
         (226, 128, 137), (226, 128, 138), (226, 128, 168), (226, 128, 169), (226, 128, 175),
         (226, 129, 159), (227, 128, 128), (239, 187, 191)})"

fun trimStart :: "string \<Rightarrow> string" where
  "trimStart (a # b # c # cs) =
     (if is_space a then trimStart (b # c # cs)
      else if is_space2 a b then trimStart (c # cs)
      else if is_space3 a b c then trimStart cs
      else a # b # c # cs)"
| "trimStart [a, b] =
     (if is_space a then trimStart [b] else if is_space2 a b then [] else [a, b])"
| "trimStart [a] = (if is_space a then [] else [a])"
| "trimStart [] = []"

text \<open>The same from the end, on the reversed string: the bytes of a character come last first.\<close>

fun trimStart_reversed :: "string \<Rightarrow> string" where
  "trimStart_reversed (c # b # a # cs) =
     (if is_space c then trimStart_reversed (b # a # cs)
      else if is_space2 b c then trimStart_reversed (a # cs)
      else if is_space3 a b c then trimStart_reversed cs
      else c # b # a # cs)"
| "trimStart_reversed [b, a] =
     (if is_space b then trimStart_reversed [a] else if is_space2 a b then [] else [b, a])"
| "trimStart_reversed [a] = (if is_space a then [] else [a])"
| "trimStart_reversed [] = []"

definition trim :: "string \<Rightarrow> string" where
  "trim s = rev (trimStart_reversed (rev (trimStart s)))"

section \<open>JavaScript \<open>Map\<close>\<close>

text \<open>
  A \<open>Map\<close> keeps its entries in insertion order: \<open>set\<close> on a present key replaces the
  value in place, on a new key it appends. \<open>keys()\<close> and \<open>values()\<close> read that order.
\<close>

type_synonym ('k, 'v) js_map = "('k \<times> 'v) list"

fun Map_set :: "'k \<Rightarrow> 'v \<Rightarrow> ('k, 'v) js_map \<Rightarrow> ('k, 'v) js_map" where
  "Map_set k v [] = [(k, v)]"
| "Map_set k v ((k', v') # m) = (if k' = k then (k, v) # m else (k', v') # Map_set k v m)"

definition Map_get :: "('k, 'v) js_map \<Rightarrow> 'k \<Rightarrow> 'v option" where
  "Map_get m k = map_of m k"

definition Map_keys :: "('k, 'v) js_map \<Rightarrow> 'k list" where
  "Map_keys m = map fst m"

definition Map_values :: "('k, 'v) js_map \<Rightarrow> 'v list" where
  "Map_values m = map snd m"

section \<open>The campaign feed\<close>

text \<open>
  The JSON payload. An optional field is an \<open>option\<close>: \<open>None\<close> is \<open>undefined\<close>.
  The demographic view declares its own types for the fields it reads.
\<close>

record Performance =
  perf_impressions :: "jsnum option"
  perf_clicks :: "jsnum option"
  perf_conversions :: "jsnum option"

record DemographicBreakdown =
  age_group :: "string option"
  gender :: "string option"
  percentage_of_audience :: "jsnum option"
  performance :: "Performance option"

text \<open>
  Modelled from the spec: the type \<open>Campaign\<close> of \<open>src/types/marketing\<close>, which the
  device, region and week views import and which is not among the sources. The records of
  \<open>device_performance\<close>, \<open>regional_performance\<close> and \<open>weekly_performance\<close> have the fields
  the spec lists and the views read; a numeric field is a number or absent, \<open>device\<close> and
  \<open>region\<close> are a string or absent (the feed is external JSON), the week boundaries are
  strings.
\<close>

record DeviceStat =
  device :: "string option"
  ds_impressions :: "jsnum option"
  ds_clicks :: "jsnum option"
  ds_conversions :: "jsnum option"
  ds_spend :: "jsnum option"
  ds_revenue :: "jsnum option"

record RegionStat =
  region :: "string option"
  country :: "string option"
  rs_spend :: "jsnum option"
  rs_revenue :: "jsnum option"

record WeekStat =
  week_start :: string
  week_end :: string
  ws_spend :: "jsnum option"
  ws_revenue :: "jsnum option"

record Campaign =
  c_spend :: "jsnum option"
  c_revenue :: "jsnum option"
  demographic_breakdown :: "DemographicBreakdown list option"
  device_performance :: "DeviceStat list option"
  regional_performance :: "RegionStat list option"
  weekly_performance :: "WeekStat list option"

text \<open>\<open>xs ?? []\<close>.\<close>

definition or_empty :: "'a list option \<Rightarrow> 'a list" where
  "or_empty xs = (case xs of None \<Rightarrow> [] | Some ys \<Rightarrow> ys)"

section \<open>Demographic view\<close>

record GenderMetrics =
  g_clicks :: jsnum
  g_spend :: jsnum
  g_revenue :: jsnum

record GenderTotals =
  gt_male :: GenderMetrics
  gt_female :: GenderMetrics

record AgeMetrics =
  a_spend :: jsnum
  a_revenue :: jsnum
  a_impressions :: jsnum
  a_clicks :: jsnum
  a_conversions :: jsnum

type_synonym AgeTotals = "(string, AgeMetrics) js_map"

record GenderAgeTotals =
  gat_male :: AgeTotals
  gat_female :: AgeTotals

text \<open>What \<open>aggregateCampaignMetrics\<close> returns, and the state of its two loops.\<close>

record Aggregation =
  genderTotals :: GenderTotals
  ageTotals :: AgeTotals
  genderAgeTotals :: GenderAgeTotals


definition AGE_GROUP_ORDER :: "string list" where
  "AGE_GROUP_ORDER = [''18-24'', ''25-34'', ''35-44'', ''45-54'', ''55+'']"

definition createEmptyAgeMetrics :: AgeMetrics where
  "createEmptyAgeMetrics =
     \<lparr>a_spend = Fin 0, a_revenue = Fin 0, a_impressions = Fin 0, a_clicks = Fin 0,
      a_conversions = Fin 0\<rparr>"

definition initial_aggregation :: Aggregation where
  "initial_aggregation =
     \<lparr>genderTotals =
        \<lparr>gt_male = \<lparr>g_clicks = Fin 0, g_spend = Fin 0, g_revenue = Fin 0\<rparr>,
         gt_female = \<lparr>g_clicks = Fin 0, g_spend = Fin 0, g_revenue = Fin 0\<rparr>\<rparr>,
      ageTotals = [],
      genderAgeTotals = \<lparr>gat_male = [], gat_female = []\<rparr>\<rparr>"

text \<open>
  \<open>breakdowns.reduce((sum, b) => sum + (b.percentage_of_audience ?? 0), 0)\<close>
\<close>

definition totalPercentage_of :: "DemographicBreakdown list \<Rightarrow> jsnum" where
  "totalPercentage_of breakdowns =
     foldl (\<lambda>sum breakdown. js_add sum (or_zero (percentage_of_audience breakdown)))
       (Fin 0) breakdowns"

text \<open>
  The share of one segment: its percentage over the total when the segment has a
  percentage and the total is positive, one over the number of segments otherwise.
\<close>

definition share_of :: "jsnum \<Rightarrow> nat \<Rightarrow> DemographicBreakdown \<Rightarrow> jsnum" where
  "share_of totalPercentage len segment =
     (case percentage_of_audience segment of
        Some p \<Rightarrow>
          if js_gt totalPercentage (Fin 0) then js_div p totalPercentage
          else js_div (Fin 1) (Fin (of_nat len))
      | None \<Rightarrow> js_div (Fin 1) (Fin (of_nat len)))"

text \<open>
  \<open>map.set(ageGroup, {spend: current.spend + spendShare, ...})\<close> with
  \<open>current = map.get(ageGroup) ?? createEmptyAgeMetrics()\<close>: the source writes it once for
  the age totals and once for the map of the segment's gender.
\<close>

definition add_age_metrics ::
  "string \<Rightarrow> jsnum \<Rightarrow> jsnum \<Rightarrow> jsnum \<Rightarrow> jsnum \<Rightarrow> jsnum \<Rightarrow> AgeTotals \<Rightarrow> AgeTotals" where
  "add_age_metrics ageGroup spendShare revenueShare impressions clicks conversions m =
     (let current = (case Map_get m ageGroup of None \<Rightarrow> createEmptyAgeMetrics | Some t \<Rightarrow> t)
      in Map_set ageGroup
           \<lparr>a_spend = js_add (a_spend current) spendShare,
            a_revenue = js_add (a_revenue current) revenueShare,
            a_impressions = js_add (a_impressions current) impressions,
            a_clicks = js_add (a_clicks current) clicks,
            a_conversions = js_add (a_conversions current) conversions\<rparr> m)"

definition add_gender_metrics :: "jsnum \<Rightarrow> jsnum \<Rightarrow> jsnum \<Rightarrow> GenderMetrics \<Rightarrow> GenderMetrics" where
  "add_gender_metrics clicks spendShare revenueShare g =
     \<lparr>g_clicks = js_add (g_clicks g) clicks,
      g_spend = js_add (g_spend g) spendShare,
      g_revenue = js_add (g_revenue g) revenueShare\<rparr>"

definition genderKey_of :: "DemographicBreakdown \<Rightarrow> string" where
  "genderKey_of segment = toLowerCase (case gender segment of None \<Rightarrow> [] | Some g \<Rightarrow> g)"

definition ageGroup_of :: "DemographicBreakdown \<Rightarrow> string" where
  "ageGroup_of segment = (case age_group segment of None \<Rightarrow> ''Unknown'' | Some a \<Rightarrow> a)"

definition impressions_of :: "DemographicBreakdown \<Rightarrow> jsnum" where
  "impressions_of segment =
     or_zero (case performance segment of None \<Rightarrow> None | Some p \<Rightarrow> perf_impressions p)"

definition clicks_of :: "DemographicBreakdown \<Rightarrow> jsnum" where
  "clicks_of segment =
     or_zero (case performance segment of None \<Rightarrow> None | Some p \<Rightarrow> perf_clicks p)"

definition conversions_of :: "DemographicBreakdown \<Rightarrow> jsnum" where
  "conversions_of segment =
     or_zero (case performance segment of None \<Rightarrow> None | Some p \<Rightarrow> perf_conversions p)"

text \<open>The body of the inner \<open>forEach\<close>: one segment of a campaign.\<close>

definition add_segment ::
  "jsnum \<Rightarrow> jsnum \<Rightarrow> jsnum \<Rightarrow> nat \<Rightarrow> Aggregation \<Rightarrow> DemographicBreakdown \<Rightarrow> Aggregation" where
  "add_segment spend revenue totalPercentage len st segment =
     (let share = share_of totalPercentage len segment;
          impressions = impressions_of segment;
          clicks = clicks_of segment;
          conversions = conversions_of segment;
          spendShare = js_mul spend share;
          revenueShare = js_mul revenue share;
          genderKey = genderKey_of segment;
          ageGroup = ageGroup_of segment;
          st1 = st\<lparr>ageTotals :=
                  add_age_metrics ageGroup spendShare revenueShare impressions clicks conversions
                    (ageTotals st)\<rparr>
      in if genderKey = ''male'' then
           st1\<lparr>genderTotals := (genderTotals st1)
                  \<lparr>gt_male :=
                     add_gender_metrics clicks spendShare revenueShare
                       (gt_male (genderTotals st1))\<rparr>,
               genderAgeTotals := (genderAgeTotals st1)
                  \<lparr>gat_male :=
                     add_age_metrics ageGroup spendShare revenueShare impressions clicks
                       conversions (gat_male (genderAgeTotals st1))\<rparr>\<rparr>
         else if genderKey = ''female'' then
           st1\<lparr>genderTotals := (genderTotals st1)
                  \<lparr>gt_female :=
                     add_gender_metrics clicks spendShare revenueShare
                       (gt_female (genderTotals st1))\<rparr>,
               genderAgeTotals := (genderAgeTotals st1)
                  \<lparr>gat_female :=
                     add_age_metrics ageGroup spendShare revenueShare impressions clicks
                       conversions (gat_female (genderAgeTotals st1))\<rparr>\<rparr>
         else st1)"

text \<open>The body of the outer \<open>forEach\<close>: one campaign.\<close>

definition add_campaign :: "Aggregation \<Rightarrow> Campaign \<Rightarrow> Aggregation" where
  "add_campaign st campaign =
     (let breakdowns = or_empty (demographic_breakdown campaign)
      in if length breakdowns = 0 then st
         else foldl
                (add_segment (or_zero (c_spend campaign)) (or_zero (c_revenue campaign))
                   (totalPercentage_of breakdowns) (length breakdowns))
                st breakdowns)"

definition aggregateCampaignMetrics :: "Campaign list \<Rightarrow> Aggregation" where
  "aggregateCampaignMetrics campaigns = foldl add_campaign initial_aggregation campaigns"

text \<open>
  \<open>Array.prototype.sort\<close> without a comparator orders strings by their code units; on
  ASCII strings that is the lexicographic order of \<open>char list\<close>.
\<close>

definition buildOrderedAgeGroups :: "AgeTotals \<Rightarrow> string list" where
  "buildOrderedAgeGroups totals =
     AGE_GROUP_ORDER @
     sort (filter (\<lambda>ageGroup. ageGroup \<notin> set AGE_GROUP_ORDER) (Map_keys totals))"



section \<open>Array sort with a comparator\<close>

text \<open>
  \<open>Array.prototype.sort(cmp)\<close> is stable, and an element goes behind another one only
  when the comparator returns a number above zero. For a consistent comparator the stable
  sorted order is unique, and insertion from the right computes it. A comparator that
  returns NaN is not consistent: ECMAScript leaves the order to the engine then, and the
  order the model gives for it is one of many, not a statement about the code. Every
  theorem below about the order of a sorted list has a hypothesis that excludes NaN.
\<close>

fun insert_by :: "('a \<Rightarrow> 'a \<Rightarrow> jsnum) \<Rightarrow> 'a \<Rightarrow> 'a list \<Rightarrow> 'a list" where
  "insert_by cmp x [] = [x]"
| "insert_by cmp x (y # ys) =
     (if js_gt (cmp x y) (Fin 0) then y # insert_by cmp x ys else x # y # ys)"

definition Array_sort :: "('a \<Rightarrow> 'a \<Rightarrow> jsnum) \<Rightarrow> 'a list \<Rightarrow> 'a list" where
  "Array_sort cmp xs = foldr (insert_by cmp) xs []"

section \<open>Device view\<close>

record DeviceAggregate =
  da_device :: "string option"
  da_impressions :: jsnum
  da_clicks :: jsnum
  da_conversions :: jsnum
  da_spend :: jsnum
  da_revenue :: jsnum

text \<open>\<open>roas\<close> is a number or \<open>null\<close> (\<open>None\<close>).\<close>

record DeviceMetrics = DeviceAggregate +
  ctr :: jsnum
  conversionRate :: jsnum
  roas :: "jsnum option"
  trafficShare :: jsnum

definition DEVICE_ORDER :: "string list" where
  "DEVICE_ORDER = [''mobile'', ''desktop'']"

definition DEVICE_LABELS :: "(string \<times> string) list" where
  "DEVICE_LABELS = [(''mobile'', ''Mobile''), (''desktop'', ''Desktop'')]"

definition empty_device_aggregate :: "string \<Rightarrow> DeviceAggregate" where
  "empty_device_aggregate key =
     \<lparr>da_device = map_of DEVICE_LABELS key, da_impressions = Fin 0, da_clicks = Fin 0,
      da_conversions = Fin 0, da_spend = Fin 0, da_revenue = Fin 0\<rparr>"

text \<open>
  The body of the inner \<open>forEach\<close>. \<open>Number(x ?? 0)\<close> on a number or an absent field
  is \<open>x ?? 0\<close>.
\<close>

definition add_device ::
  "(string, DeviceAggregate) js_map \<Rightarrow> DeviceStat \<Rightarrow> (string, DeviceAggregate) js_map" where
  "add_device totals deviceStat =
     (case map_option toLowerCase (device deviceStat) of
        None \<Rightarrow> totals
      | Some key \<Rightarrow>
          if key \<noteq> ''mobile'' \<and> key \<noteq> ''desktop'' then totals
          else
            let impressions = or_zero (ds_impressions deviceStat);
                clicks = or_zero (ds_clicks deviceStat);
                conversions = or_zero (ds_conversions deviceStat);
                spend = or_zero (ds_spend deviceStat);
                revenue = or_zero (ds_revenue deviceStat);
                existing = (case Map_get totals key of
                              None \<Rightarrow> empty_device_aggregate key | Some e \<Rightarrow> e)
            in Map_set key
                 (existing
                    \<lparr>da_impressions := js_add (da_impressions existing) (finite_or_zero impressions),
                     da_clicks := js_add (da_clicks existing) (finite_or_zero clicks),
                     da_conversions := js_add (da_conversions existing) (finite_or_zero conversions),
                     da_spend := js_add (da_spend existing) (finite_or_zero spend),
                     da_revenue := js_add (da_revenue existing) (finite_or_zero revenue)\<rparr>)
                 totals)"

definition aggregateDevicePerformance :: "Campaign list \<Rightarrow> (string, DeviceAggregate) js_map" where
  "aggregateDevicePerformance campaigns =
     foldl (\<lambda>totals campaign. foldl add_device totals (or_empty (device_performance campaign)))
       [] campaigns"

definition enrich_one :: "jsnum \<Rightarrow> DeviceAggregate \<Rightarrow> DeviceMetrics" where
  "enrich_one totalClicks aggregate =
     \<lparr>da_device = da_device aggregate,
      da_impressions = da_impressions aggregate,
      da_clicks = da_clicks aggregate,
      da_conversions = da_conversions aggregate,
      da_spend = da_spend aggregate,
      da_revenue = da_revenue aggregate,
      ctr = (if js_gt (da_impressions aggregate) (Fin 0)
             then js_mul (js_div (da_clicks aggregate) (da_impressions aggregate)) (Fin 100)
             else Fin 0),
      conversionRate = (if js_gt (da_clicks aggregate) (Fin 0)
             then js_mul (js_div (da_conversions aggregate) (da_clicks aggregate)) (Fin 100)
             else Fin 0),
      roas = (if js_gt (da_spend aggregate) (Fin 0)
             then Some (js_div (da_revenue aggregate) (da_spend aggregate)) else None),
      trafficShare = (if js_gt totalClicks (Fin 0)
             then js_mul (js_div (da_clicks aggregate) totalClicks) (Fin 100)
             else Fin 0)\<rparr>"

definition totalClicks_of :: "(string, DeviceAggregate) js_map \<Rightarrow> jsnum" where
  "totalClicks_of totals =
     foldl (\<lambda>sum item. js_add sum (da_clicks item)) (Fin 0) (Map_values totals)"

text \<open>The result object has its properties in the order they were assigned.\<close>

definition enrichMetrics ::
  "(string, DeviceAggregate) js_map \<Rightarrow> (string, DeviceMetrics) js_map" where
  "enrichMetrics totals =
     foldl
       (\<lambda>acc key.
          Map_set key
            (enrich_one (totalClicks_of totals)
               (case Map_get totals key of None \<Rightarrow> empty_device_aggregate key | Some a \<Rightarrow> a))
            acc)
       [] DEVICE_ORDER"

section \<open>Region view\<close>

text \<open>
  \<open>REGION_COORDINATES\<close> is an object literal, and \<open>REGION_COORDINATES[key]\<close> is a property
  read: it finds the own properties of the object (the table) and, behind them, the
  properties every object inherits from \<open>Object.prototype\<close>. An inherited member is a
  function or an object: it is neither \<open>null\<close> nor \<open>undefined\<close>, it is truthy, and its
  \<open>lat\<close> and \<open>lon\<close> are \<open>undefined\<close>.
\<close>

definition REGION_COORDINATES :: "(string \<times> rat \<times> rat) list" where
  "REGION_COORDINATES =
     [(''abu dhabi'', 244539 / 10000, 543773 / 10000),
      (''al ain'', 241302 / 10000, 558023 / 10000),
      (''al khobar'', 262172 / 10000, 501971 / 10000),
      (''dammam'', 264207 / 10000, 50088 / 1000),
      (''doha'', 252854 / 10000, 51531 / 1000),
      (''dubai'', 252048 / 10000, 552708 / 10000),
      (''fujairah'', 251288 / 10000, 563265 / 10000),
      (''jeddah'', 214858 / 10000, 391925 / 10000),
      (''kuwait city'', 293786 / 10000, 479903 / 10000),
      (''manama'', 262235 / 10000, 505876 / 10000),
      (''muscat'', 23588 / 1000, 583829 / 10000),
      (''ras al khaimah'', 258007 / 10000, 559762 / 10000),
      (''riyadh'', 247136 / 10000, 466753 / 10000),
      (''sharjah'', 253463 / 10000, 554211 / 10000),
      (''shuwaikh'', 293499 / 10000, 479647 / 10000),
      (''ajman'', 254052 / 10000, 555136 / 10000),
      (''bahrain'', 260667 / 10000, 505577 / 10000)]"

definition Object_prototype_keys :: "string list" where
  "Object_prototype_keys =
     [''constructor'', ''__defineGetter__'', ''__defineSetter__'', ''hasOwnProperty'',
      ''__lookupGetter__'', ''__lookupSetter__'', ''isPrototypeOf'', ''propertyIsEnumerable'',
      ''toString'', ''valueOf'', ''__proto__'', ''toLocaleString'']"

datatype property = Coordinates rat rat | Inherited

definition get_property :: "string \<Rightarrow> property option" where
  "get_property key =
     (case map_of REGION_COORDINATES key of
        Some (lat, lon) \<Rightarrow> Some (Coordinates lat lon)
      | None \<Rightarrow> if key \<in> set Object_prototype_keys then Some Inherited else None)"

fun lat :: "property \<Rightarrow> jsnum option" where
  "lat (Coordinates la lo) = Some (Fin la)"
| "lat Inherited = None"

fun lon :: "property \<Rightarrow> jsnum option" where
  "lon (Coordinates la lo) = Some (Fin lo)"
| "lon Inherited = None"

datatype error = TypeError | SyntaxError

text \<open>\<open>value.trim()\<close> on \<open>undefined\<close> throws a TypeError.\<close>

definition normalizeKey :: "string option \<Rightarrow> error + string" where
  "normalizeKey v = (case v of None \<Rightarrow> Inl TypeError | Some s \<Rightarrow> Inr (toLowerCase (trim s)))"

text \<open>The result is the property or \<open>null\<close> (\<open>None\<close>).\<close>

definition resolveCoordinates :: "string option \<Rightarrow> error + property option" where
  "resolveCoordinates r =
     (case normalizeKey r of Inl e \<Rightarrow> Inl e | Inr key \<Rightarrow> Inr (get_property key))"

record RegionAggregate =
  ra_region :: "string option"
  ra_country :: "string option"
  latitude :: "jsnum option"
  longitude :: "jsnum option"
  ra_spend :: jsnum
  ra_revenue :: jsnum

text \<open>\<open>Set.prototype.add\<close>: a \<open>Set\<close> keeps its members in insertion order, each once.\<close>

definition Set_add :: "'a \<Rightarrow> 'a list \<Rightarrow> 'a list" where
  "Set_add x xs = (if x \<in> set xs then xs else xs @ [x])"

text \<open>The two collections of the loop: the totals and the set of names without coordinates.\<close>

record region_state =
  st_totals :: "(string, RegionAggregate) js_map"
  st_missingRegions :: "string option list"

definition add_region :: "region_state \<Rightarrow> RegionStat \<Rightarrow> error + region_state" where
  "add_region st regionStat =
     (case resolveCoordinates (region regionStat) of
        Inl e \<Rightarrow> Inl e
      | Inr None \<Rightarrow>
          Inr (st\<lparr>st_missingRegions := Set_add (region regionStat) (st_missingRegions st)\<rparr>)
      | Inr (Some coordinates) \<Rightarrow>
          (case normalizeKey (region regionStat) of
             Inl e \<Rightarrow> Inl e
           | Inr key \<Rightarrow>
               let existing = (case Map_get (st_totals st) key of
                                 Some e \<Rightarrow> e
                               | None \<Rightarrow>
                                   \<lparr>ra_region = region regionStat,
                                    ra_country = country regionStat,
                                    latitude = lat coordinates,
                                    longitude = lon coordinates,
                                    ra_spend = Fin 0, ra_revenue = Fin 0\<rparr>);
                   spend = or_zero (rs_spend regionStat);
                   revenue = or_zero (rs_revenue regionStat)
               in Inr (st\<lparr>st_totals :=
                          Map_set key
                            (existing
                               \<lparr>ra_spend := js_add (ra_spend existing) (finite_or_zero spend),
                                ra_revenue :=
                                  js_add (ra_revenue existing) (finite_or_zero revenue)\<rparr>)
                            (st_totals st)\<rparr>)))"

text \<open>A loop whose body may throw: the first exception ends it.\<close>

fun forEach :: "('s \<Rightarrow> 'a \<Rightarrow> error + 's) \<Rightarrow> 's \<Rightarrow> 'a list \<Rightarrow> error + 's" where
  "forEach f s [] = Inr s"
| "forEach f s (x # xs) = (case f s x of Inl e \<Rightarrow> Inl e | Inr s' \<Rightarrow> forEach f s' xs)"

definition region_loop :: "Campaign list \<Rightarrow> error + region_state" where
  "region_loop campaigns =
     forEach (\<lambda>st campaign. forEach add_region st (or_empty (regional_performance campaign)))
       \<lparr>st_totals = [], st_missingRegions = []\<rparr> campaigns"

text \<open>
  The value returned to the caller, or the exception thrown. The names in
  \<open>missingRegions\<close> go to \<open>console.warn\<close> only.
\<close>

definition aggregateRegionalPerformance :: "Campaign list \<Rightarrow> error + RegionAggregate list" where
  "aggregateRegionalPerformance campaigns =
     (case region_loop campaigns of
        Inl e \<Rightarrow> Inl e
      | Inr st \<Rightarrow>
          Inr (Array_sort (\<lambda>a b. js_sub (ra_revenue b) (ra_revenue a)) (Map_values (st_totals st))))"

section \<open>Weekly view\<close>

record WeeklyAggregate =
  weekStart :: string
  weekEnd :: string
  wa_spend :: jsnum
  wa_revenue :: jsnum

text \<open>The key \<open>`${week.week_start}_${week.week_end}`\<close>.\<close>

definition week_key :: "WeekStat \<Rightarrow> string" where
  "week_key week = week_start week @ ''_'' @ week_end week"

definition add_week ::
  "(string, WeeklyAggregate) js_map \<Rightarrow> WeekStat \<Rightarrow> (string, WeeklyAggregate) js_map" where
  "add_week m week =
     (let key = week_key week;
          existing = (case Map_get m key of
                        Some e \<Rightarrow> e
                      | None \<Rightarrow>
                          \<lparr>weekStart = week_start week, weekEnd = week_end week,
                           wa_spend = Fin 0, wa_revenue = Fin 0\<rparr>);
          spend = or_zero (ws_spend week);
          revenue = or_zero (ws_revenue week)
      in Map_set key
           (existing
              \<lparr>wa_spend := js_add (wa_spend existing) (finite_or_zero spend),
               wa_revenue := js_add (wa_revenue existing) (finite_or_zero revenue)\<rparr>)
           m)"

definition weekly_totals :: "Campaign list \<Rightarrow> (string, WeeklyAggregate) js_map" where
  "weekly_totals campaigns =
     foldl (\<lambda>m campaign. foldl add_week m (or_empty (weekly_performance campaign)))
       [] campaigns"

text \<open>
  \<open>getTime\<close> stands for \<open>new Date(s).getTime()\<close>, the time value of the date a string
  parses to, NaN when it parses to no date. It belongs to the platform.
\<close>

definition aggregateWeeklyPerformance ::
  "(string \<Rightarrow> jsnum) \<Rightarrow> Campaign list \<Rightarrow> WeeklyAggregate list" where
  "aggregateWeeklyPerformance getTime campaigns =
     Array_sort (\<lambda>a b. js_sub (getTime (weekStart a)) (getTime (weekStart b)))
       (Map_values (weekly_totals campaigns))"

section \<open>Fetching the feed\<close>

text \<open>
  What one call of \<open>fetch\<close> can come to: the promise of \<open>fetch\<close> rejects (no response),
  or it gives a response with its \<open>ok\<close> flag (status 200 to 299) and a body, and
  \<open>response.json()\<close> is a promise that rejects with a SyntaxError on a body that is not
  JSON and otherwise delivers the parsed value.
\<close>

datatype 'a body = Malformed | Json 'a

datatype 'a fetched = NetworkFailure | Response bool "'a body"

text \<open>The promise an \<open>async\<close> function returns, once settled.\<close>

datatype 'a settled = Rejected error | Fulfilled 'a

text \<open>
  \<open>fetchMarketingData\<close>. The \<open>await fetch(...)\<close> and the \<open>throw\<close> are inside the
  \<open>try\<close>, so both end in the \<open>catch\<close>, which returns \<open>null\<close> (\<open>None\<close>). The last
  statement is \<open>return response.json()\<close> with no \<open>await\<close>: the \<open>try\<close> block is left
  with a pending promise as the return value, and the promise of the function then takes
  the outcome of that promise, a rejection included.
\<close>

definition fetchMarketingData :: "'a fetched \<Rightarrow> 'a option settled" where
  "fetchMarketingData outcome =
     (case outcome of
        NetworkFailure \<Rightarrow> Fulfilled None
      | Response ok b \<Rightarrow>
          if \<not> ok then Fulfilled None
          else (case b of Malformed \<Rightarrow> Rejected SyntaxError | Json d \<Rightarrow> Fulfilled (Some d)))"

section \<open>Totals over an aggregate, and inputs for the examples\<close>

text \<open>
  The spend the age aggregator has allocated, summed over its age groups, and the spend
  of the campaigns themselves. They are the two sides of the partition invariant.
\<close>

definition allocated_spend :: "Aggregation \<Rightarrow> jsnum" where
  "allocated_spend agg =
     foldl (\<lambda>sum t. js_add sum (a_spend t)) (Fin 0) (Map_values (ageTotals agg))"

definition allocated_revenue :: "Aggregation \<Rightarrow> jsnum" where
  "allocated_revenue agg =
     foldl (\<lambda>sum t. js_add sum (a_revenue t)) (Fin 0) (Map_values (ageTotals agg))"

definition campaigns_spend :: "Campaign list \<Rightarrow> jsnum" where
  "campaigns_spend campaigns =
     foldl (\<lambda>sum c. js_add sum (or_zero (c_spend c))) (Fin 0) campaigns"

text \<open>The sum of one metric over the age groups, and the percentage of a segment as a rational.\<close>

definition total_of :: "(AgeMetrics \<Rightarrow> jsnum) \<Rightarrow> AgeTotals \<Rightarrow> jsnum" where
  "total_of f m = foldl (\<lambda>sum t. js_add sum (f t)) (Fin 0) (Map_values m)"

definition percentage_value :: "DemographicBreakdown \<Rightarrow> rat" where
  "percentage_value seg = (case percentage_of_audience seg of Some (Fin p) \<Rightarrow> p | _ \<Rightarrow> 0)"

text \<open>A campaign with demographic data only, and a segment with all three counts.\<close>

definition demographic_campaign ::
  "jsnum option \<Rightarrow> jsnum option \<Rightarrow> DemographicBreakdown list option \<Rightarrow> Campaign" where
  "demographic_campaign s r d =
     \<lparr>c_spend = s, c_revenue = r, demographic_breakdown = d, device_performance = None,
      regional_performance = None, weekly_performance = None\<rparr>"

definition segment ::
  "string option \<Rightarrow> string option \<Rightarrow> jsnum option \<Rightarrow> rat \<Rightarrow> rat \<Rightarrow> rat \<Rightarrow> DemographicBreakdown" where
  "segment g a p i c v =
     \<lparr>age_group = a, gender = g, percentage_of_audience = p,
      performance = Some \<lparr>perf_impressions = Some (Fin i), perf_clicks = Some (Fin c),
                          perf_conversions = Some (Fin v)\<rparr>\<rparr>"

text \<open>
  The sums the inner loop writes into a metrics record, and the record a group has before
  a segment is added (the empty one when the group is new).
\<close>

definition plus_metrics :: "AgeMetrics \<Rightarrow> jsnum \<Rightarrow> jsnum \<Rightarrow> jsnum \<Rightarrow> jsnum \<Rightarrow> jsnum \<Rightarrow> AgeMetrics" where
  "plus_metrics t s r i c v =
     \<lparr>a_spend = js_add (a_spend t) s, a_revenue = js_add (a_revenue t) r,
      a_impressions = js_add (a_impressions t) i, a_clicks = js_add (a_clicks t) c,
      a_conversions = js_add (a_conversions t) v\<rparr>"

definition current_metrics :: "AgeTotals \<Rightarrow> string \<Rightarrow> AgeMetrics" where
  "current_metrics m k = (case Map_get m k of None \<Rightarrow> createEmptyAgeMetrics | Some t \<Rightarrow> t)"

text \<open>Records with all fields present, for the examples.\<close>

definition device_stat :: "string option \<Rightarrow> rat \<Rightarrow> rat \<Rightarrow> rat \<Rightarrow> rat \<Rightarrow> rat \<Rightarrow> DeviceStat" where
  "device_stat d i c v s r =
     \<lparr>device = d, ds_impressions = Some (Fin i), ds_clicks = Some (Fin c),
      ds_conversions = Some (Fin v), ds_spend = Some (Fin s), ds_revenue = Some (Fin r)\<rparr>"

definition device_aggregate :: "string \<Rightarrow> rat \<Rightarrow> rat \<Rightarrow> rat \<Rightarrow> rat \<Rightarrow> rat \<Rightarrow> DeviceAggregate" where
  "device_aggregate d i c v s r =
     \<lparr>da_device = Some d, da_impressions = Fin i, da_clicks = Fin c, da_conversions = Fin v,
      da_spend = Fin s, da_revenue = Fin r\<rparr>"


definition region_campaign :: "RegionStat list \<Rightarrow> Campaign" where
  "region_campaign rs =
     \<lparr>c_spend = None, c_revenue = None, demographic_breakdown = None, device_performance = None,
      regional_performance = Some rs, weekly_performance = None\<rparr>"

definition region_stat :: "string \<Rightarrow> string \<Rightarrow> jsnum option \<Rightarrow> jsnum option \<Rightarrow> RegionStat" where
  "region_stat r c s v = \<lparr>region = Some r, country = Some c, rs_spend = s, rs_revenue = v\<rparr>"

definition week_campaign :: "WeekStat list \<Rightarrow> Campaign" where
  "week_campaign ws =
     \<lparr>c_spend = None, c_revenue = None, demographic_breakdown = None, device_performance = None,
      regional_performance = None, weekly_performance = Some ws\<rparr>"

definition week_stat :: "string \<Rightarrow> string \<Rightarrow> rat \<Rightarrow> rat \<Rightarrow> WeekStat" where
  "week_stat s e sp rv = \<lparr>week_start = s, week_end = e, ws_spend = Some (Fin sp), ws_revenue = Some (Fin rv)\<rparr>"

text \<open>
  A \<open>getTime\<close> for the examples: three Mondays of January 2024 with their time values
  in milliseconds, every other string parses to no date.
\<close>

definition example_getTime :: "string \<Rightarrow> jsnum" where
  "example_getTime s =
     (case map_of [(''2024-01-01'', Fin 1704067200000), (''2024-01-08'', Fin 1704672000000),
                   (''2024-01-15'', Fin 1705276800000)] s of
        Some t \<Rightarrow> t | None \<Rightarrow> NaN)"

section \<open>Weekly buckets, as the spec describes them\<close>

text \<open>
  The weekly entries of all campaigns in the order the loops visit them; the bucket of a
  key, which is absent when no entry has the key, and otherwise has the boundaries of the
  first entry with the key and the sums, from 0 and in order, of spend and revenue (each
  absent or non-finite value counted as 0) over the entries with the key.
\<close>

definition all_weeks :: "Campaign list \<Rightarrow> WeekStat list" where
  "all_weeks campaigns = concat (map (\<lambda>campaign. or_empty (weekly_performance campaign)) campaigns)"

definition week_sum :: "(WeekStat \<Rightarrow> jsnum option) \<Rightarrow> WeekStat list \<Rightarrow> jsnum" where
  "week_sum f ws = foldl (\<lambda>sum w. js_add sum (finite_or_zero (or_zero (f w)))) (Fin 0) ws"

definition bucket :: "string \<Rightarrow> WeekStat list \<Rightarrow> WeeklyAggregate option" where
  "bucket key ws =
     (case filter (\<lambda>w. week_key w = key) ws of
        [] \<Rightarrow> None
      | w # rest \<Rightarrow>
          Some \<lparr>weekStart = week_start w, weekEnd = week_end w,
                wa_spend = week_sum ws_spend (w # rest),
                wa_revenue = week_sum ws_revenue (w # rest)\<rparr>)"

text \<open>One step of the weekly loop on an aggregate, and the aggregate a new key starts from.\<close>

definition absorb :: "WeeklyAggregate \<Rightarrow> WeekStat \<Rightarrow> WeeklyAggregate" where
  "absorb e w =
     e\<lparr>wa_spend := js_add (wa_spend e) (finite_or_zero (or_zero (ws_spend w))),
       wa_revenue := js_add (wa_revenue e) (finite_or_zero (or_zero (ws_revenue w)))\<rparr>"

definition fresh :: "WeekStat \<Rightarrow> WeeklyAggregate" where
  "fresh w = \<lparr>weekStart = week_start w, weekEnd = week_end w, wa_spend = Fin 0, wa_revenue = Fin 0\<rparr>"

text \<open>A device aggregate all of whose metrics are finite.\<close>

definition finite_aggregate :: "DeviceAggregate \<Rightarrow> bool" where
  "finite_aggregate a =
     (isFinite (da_impressions a) \<and> isFinite (da_clicks a) \<and> isFinite (da_conversions a)
      \<and> isFinite (da_spend a) \<and> isFinite (da_revenue a))"

text \<open>A numeric field after the coercion: a finite number stays, everything else is 0.\<close>

definition zeroed :: "jsnum option \<Rightarrow> jsnum option" where
  "zeroed x = Some (finite_or_zero (or_zero x))"

section \<open>The aggregates in terms of the feed\<close>

text \<open>
  What one segment of a campaign contributes: the key of its gender, its age group, its
  share of the spend and of the revenue of the campaign, and its three counts. The
  contributions of a campaign are those of its segments in order, with the shares taken
  over the total percentage and the number of segments of that campaign; the contributions
  of a feed are those of its campaigns in order.
\<close>

record Contribution =
  k_gender :: string
  k_age :: string
  x_spend :: jsnum
  x_revenue :: jsnum
  x_impressions :: jsnum
  x_clicks :: jsnum
  x_conversions :: jsnum

definition contribution_of ::
  "jsnum \<Rightarrow> jsnum \<Rightarrow> jsnum \<Rightarrow> nat \<Rightarrow> DemographicBreakdown \<Rightarrow> Contribution" where
  "contribution_of spend revenue tp len seg =
     \<lparr>k_gender = genderKey_of seg, k_age = ageGroup_of seg,
      x_spend = js_mul spend (share_of tp len seg),
      x_revenue = js_mul revenue (share_of tp len seg),
      x_impressions = impressions_of seg, x_clicks = clicks_of seg,
      x_conversions = conversions_of seg\<rparr>"

definition campaign_contributions :: "Campaign \<Rightarrow> Contribution list" where
  "campaign_contributions campaign =
     map (contribution_of (or_zero (c_spend campaign)) (or_zero (c_revenue campaign))
            (totalPercentage_of (or_empty (demographic_breakdown campaign)))
            (length (or_empty (demographic_breakdown campaign))))
       (or_empty (demographic_breakdown campaign))"

definition all_contributions :: "Campaign list \<Rightarrow> Contribution list" where
  "all_contributions campaigns = concat (map campaign_contributions campaigns)"

text \<open>
  The totals of an age group over a list of contributions: absent when no contribution has
  the age group, otherwise the sums, from 0 and in order, over the contributions that have
  it. The totals of a gender: the sums of clicks, spend and revenue over the contributions
  with that gender key.
\<close>

definition add_to_metrics :: "AgeMetrics \<Rightarrow> Contribution \<Rightarrow> AgeMetrics" where
  "add_to_metrics t x =
     plus_metrics t (x_spend x) (x_revenue x) (x_impressions x) (x_clicks x) (x_conversions x)"

definition age_bucket :: "string \<Rightarrow> Contribution list \<Rightarrow> AgeMetrics option" where
  "age_bucket ageGroup xs =
     (case filter (\<lambda>x. k_age x = ageGroup) xs of
        [] \<Rightarrow> None
      | y # ys \<Rightarrow> Some (foldl add_to_metrics createEmptyAgeMetrics (y # ys)))"

definition add_to_gender :: "GenderMetrics \<Rightarrow> Contribution \<Rightarrow> GenderMetrics" where
  "add_to_gender g x =
     \<lparr>g_clicks = js_add (g_clicks g) (x_clicks x), g_spend = js_add (g_spend g) (x_spend x),
      g_revenue = js_add (g_revenue g) (x_revenue x)\<rparr>"

definition gender_sum :: "string \<Rightarrow> Contribution list \<Rightarrow> GenderMetrics" where
  "gender_sum g xs =
     foldl add_to_gender \<lparr>g_clicks = Fin 0, g_spend = Fin 0, g_revenue = Fin 0\<rparr>
       (filter (\<lambda>x. k_gender x = g) xs)"

text \<open>One contribution added to an age map, and to the state of the demographic loop.\<close>

definition add_to_map :: "AgeTotals \<Rightarrow> Contribution \<Rightarrow> AgeTotals" where
  "add_to_map m x =
     add_age_metrics (k_age x) (x_spend x) (x_revenue x) (x_impressions x) (x_clicks x)
       (x_conversions x) m"

definition apply_contribution :: "Aggregation \<Rightarrow> Contribution \<Rightarrow> Aggregation" where
  "apply_contribution st x =
     (if k_gender x = ''male'' then
        \<lparr>genderTotals = (genderTotals st)\<lparr>gt_male := add_to_gender (gt_male (genderTotals st)) x\<rparr>,
         ageTotals = add_to_map (ageTotals st) x,
         genderAgeTotals = (genderAgeTotals st)
           \<lparr>gat_male := add_to_map (gat_male (genderAgeTotals st)) x\<rparr>\<rparr>
      else if k_gender x = ''female'' then
        \<lparr>genderTotals = (genderTotals st)\<lparr>gt_female := add_to_gender (gt_female (genderTotals st)) x\<rparr>,
         ageTotals = add_to_map (ageTotals st) x,
         genderAgeTotals = (genderAgeTotals st)
           \<lparr>gat_female := add_to_map (gat_female (genderAgeTotals st)) x\<rparr>\<rparr>
      else
        \<lparr>genderTotals = genderTotals st, ageTotals = add_to_map (ageTotals st) x,
         genderAgeTotals = genderAgeTotals st\<rparr>)"

text \<open>
  The device records of a feed in order, the label the device loop compares
  (\<open>deviceStat.device?.toLowerCase()\<close>), and the bucket of a key: absent when no record
  has the label, otherwise the display name and the sums, from 0 and in order, of the five
  metrics (an absent or non-finite one counted as 0) over the records with the label.
\<close>

definition all_device_stats :: "Campaign list \<Rightarrow> DeviceStat list" where
  "all_device_stats campaigns =
     concat (map (\<lambda>campaign. or_empty (device_performance campaign)) campaigns)"

definition device_label :: "DeviceStat \<Rightarrow> string option" where
  "device_label s = map_option toLowerCase (device s)"

definition device_sum :: "(DeviceStat \<Rightarrow> jsnum option) \<Rightarrow> DeviceStat list \<Rightarrow> jsnum" where
  "device_sum f stats =
     foldl (\<lambda>sum s. js_add sum (finite_or_zero (or_zero (f s)))) (Fin 0) stats"

definition device_bucket :: "string \<Rightarrow> DeviceStat list \<Rightarrow> DeviceAggregate option" where
  "device_bucket key stats =
     (case filter (\<lambda>s. device_label s = Some key) stats of
        [] \<Rightarrow> None
      | s # rest \<Rightarrow>
          Some \<lparr>da_device = map_of DEVICE_LABELS key,
                da_impressions = device_sum ds_impressions (s # rest),
                da_clicks = device_sum ds_clicks (s # rest),
                da_conversions = device_sum ds_conversions (s # rest),
                da_spend = device_sum ds_spend (s # rest),
                da_revenue = device_sum ds_revenue (s # rest)\<rparr>)"

text \<open>One step of the device loop on an aggregate.\<close>

definition absorb_device :: "DeviceAggregate \<Rightarrow> DeviceStat \<Rightarrow> DeviceAggregate" where
  "absorb_device e s =
     e\<lparr>da_impressions := js_add (da_impressions e) (finite_or_zero (or_zero (ds_impressions s))),
       da_clicks := js_add (da_clicks e) (finite_or_zero (or_zero (ds_clicks s))),
       da_conversions := js_add (da_conversions e) (finite_or_zero (or_zero (ds_conversions s))),
       da_spend := js_add (da_spend e) (finite_or_zero (or_zero (ds_spend s))),
       da_revenue := js_add (da_revenue e) (finite_or_zero (or_zero (ds_revenue s)))\<rparr>"

text \<open>
  The weekly bucket of a pair of boundaries: absent when no entry has the pair, otherwise
  the pair and the sums of spend and revenue over the entries with the pair.
\<close>

definition pair_bucket :: "string \<Rightarrow> string \<Rightarrow> WeekStat list \<Rightarrow> WeeklyAggregate option" where
  "pair_bucket s e ws =
     (case filter (\<lambda>w. week_start w = s \<and> week_end w = e) ws of
        [] \<Rightarrow> None
      | w # rest \<Rightarrow>
          Some \<lparr>weekStart = s, weekEnd = e,
                wa_spend = week_sum ws_spend (w # rest),
                wa_revenue = week_sum ws_revenue (w # rest)\<rparr>)"

text \<open>A campaign with device records only, for the examples.\<close>

definition device_campaign :: "DeviceStat list \<Rightarrow> Campaign" where
  "device_campaign ds =
     \<lparr>c_spend = None, c_revenue = None, demographic_breakdown = None, device_performance = Some ds,
      regional_performance = None, weekly_performance = None\<rparr>"

section \<open>Campaigns without a demographic breakdown\<close>

lemma add_campaign_without_breakdown:
  "demographic_breakdown c = None \<or> demographic_breakdown c = Some [] \<Longrightarrow>
   add_campaign st c = st"
  by (auto simp: add_campaign_def or_empty_def)

text \<open>
  C10. A campaign whose \<open>demographic_breakdown\<close> is absent or empty leaves the result of
  \<open>aggregateCampaignMetrics\<close> as it is without that campaign, wherever it stands in the
  list: its spend and revenue are allocated to nobody. So the spend allocated over the age
  groups can be strictly less than the spend of the campaigns.
\<close>

theorem campaign_without_breakdown_is_dropped:
  "(demographic_breakdown c = None \<or> demographic_breakdown c = Some [] \<longrightarrow>
      aggregateCampaignMetrics (xs @ c # ys) = aggregateCampaignMetrics (xs @ ys))
   \<and> (\<exists>campaigns.
         js_gt (campaigns_spend campaigns)
           (allocated_spend (aggregateCampaignMetrics campaigns)))"
proof (intro conjI impI)
  assume "demographic_breakdown c = None \<or> demographic_breakdown c = Some []"
  then show "aggregateCampaignMetrics (xs @ c # ys) = aggregateCampaignMetrics (xs @ ys)"
    by (simp add: aggregateCampaignMetrics_def add_campaign_without_breakdown)
next
  have "js_gt (campaigns_spend [demographic_campaign (Some (Fin 100)) None None])
          (allocated_spend
             (aggregateCampaignMetrics [demographic_campaign (Some (Fin 100)) None None]))"
    by (simp add: campaigns_spend_def allocated_spend_def aggregateCampaignMetrics_def
        add_campaign_def demographic_campaign_def or_empty_def or_zero_def
        initial_aggregation_def Map_values_def)
  then show "\<exists>campaigns.
      js_gt (campaigns_spend campaigns) (allocated_spend (aggregateCampaignMetrics campaigns))"
    by blast
qed

theorem campaign_without_breakdown_is_dropped_witness:
  "demographic_breakdown (demographic_campaign (Some (Fin 100)) (Some (Fin 7)) None) = None
   \<and> aggregateCampaignMetrics
       ([demographic_campaign (Some (Fin 50)) None
           (Some [segment (Some ''male'') (Some ''18-24'') None 500 10 1])]
        @ demographic_campaign (Some (Fin 100)) (Some (Fin 7)) None # [])
     = aggregateCampaignMetrics
         ([demographic_campaign (Some (Fin 50)) None
             (Some [segment (Some ''male'') (Some ''18-24'') None 500 10 1])] @ [])"
proof -
  have h: "demographic_breakdown (demographic_campaign (Some (Fin 100)) (Some (Fin 7)) None) = None"
    by (simp add: demographic_campaign_def)
  show ?thesis
    using h campaign_without_breakdown_is_dropped
      [of "demographic_campaign (Some (Fin 100)) (Some (Fin 7)) None"
          "[demographic_campaign (Some (Fin 50)) None
              (Some [segment (Some ''male'') (Some ''18-24'') None 500 10 1])]"
          "[]"]
    by blast
qed

section \<open>The order of the age groups\<close>

text \<open>
  C6. The ordered age groups are the five canonical labels in their fixed order, followed
  by the other labels of the age totals in ascending lexicographic order, each as often
  as it is a key (once, in a \<open>Map\<close>). For the keys 55+, 18-24, Teen (in that order) the
  result is 18-24, 25-34, 35-44, 45-54, 55+, Teen.
\<close>

theorem ordered_age_groups_canonical_then_sorted:
  "take 5 (buildOrderedAgeGroups m) = [''18-24'', ''25-34'', ''35-44'', ''45-54'', ''55+'']
   \<and> sorted (drop 5 (buildOrderedAgeGroups m))
   \<and> mset (drop 5 (buildOrderedAgeGroups m)) =
       filter_mset (\<lambda>a. a \<notin> set [''18-24'', ''25-34'', ''35-44'', ''45-54'', ''55+''])
         (mset (Map_keys m))
   \<and> buildOrderedAgeGroups
       [(''55+'', createEmptyAgeMetrics), (''18-24'', createEmptyAgeMetrics),
        (''Teen'', createEmptyAgeMetrics)]
     = [''18-24'', ''25-34'', ''35-44'', ''45-54'', ''55+'', ''Teen'']"
proof -
  have "buildOrderedAgeGroups
       [(''55+'', createEmptyAgeMetrics), (''18-24'', createEmptyAgeMetrics),
        (''Teen'', createEmptyAgeMetrics)]
     = [''18-24'', ''25-34'', ''35-44'', ''45-54'', ''55+'', ''Teen'']"
    by code_simp
  then show ?thesis
    by (simp add: buildOrderedAgeGroups_def AGE_GROUP_ORDER_def)
qed

section \<open>The body of the demographic loop\<close>

lemma Map_get_empty: "Map_get [] k = None"
  by (simp add: Map_get_def)

lemma Map_get_Map_set:
  "Map_get (Map_set k v m) k' = (if k' = k then Some v else Map_get m k')"
  by (induction m) (auto simp: Map_get_def)

lemma Map_keys_Map_set:
  "Map_keys (Map_set k v m) = (if k \<in> set (Map_keys m) then Map_keys m else Map_keys m @ [k])"
  by (induction m) (force simp: Map_keys_def)+

lemma ageTotals_add_segment:
  "ageTotals (add_segment spend revenue tp len st seg) =
     add_age_metrics (ageGroup_of seg) (js_mul spend (share_of tp len seg))
       (js_mul revenue (share_of tp len seg)) (impressions_of seg) (clicks_of seg)
       (conversions_of seg) (ageTotals st)"
  by (simp add: add_segment_def Let_def)

lemma other_gender_add_segment:
  "genderKey_of seg \<noteq> ''male'' \<Longrightarrow> genderKey_of seg \<noteq> ''female'' \<Longrightarrow>
   genderTotals (add_segment spend revenue tp len st seg) = genderTotals st \<and>
   genderAgeTotals (add_segment spend revenue tp len st seg) = genderAgeTotals st"
  by (simp add: add_segment_def Let_def)

lemma male_add_segment:
  "genderKey_of seg = ''male'' \<Longrightarrow>
   genderTotals (add_segment spend revenue tp len st seg) =
     (genderTotals st)\<lparr>gt_male := add_gender_metrics (clicks_of seg)
        (js_mul spend (share_of tp len seg)) (js_mul revenue (share_of tp len seg))
        (gt_male (genderTotals st))\<rparr> \<and>
   genderAgeTotals (add_segment spend revenue tp len st seg) =
     (genderAgeTotals st)\<lparr>gat_male := add_age_metrics (ageGroup_of seg) (js_mul spend (share_of tp len seg))
       (js_mul revenue (share_of tp len seg)) (impressions_of seg) (clicks_of seg)
       (conversions_of seg) (gat_male (genderAgeTotals st))\<rparr>"
  by (simp add: add_segment_def Let_def)

lemma female_add_segment:
  "genderKey_of seg = ''female'' \<Longrightarrow>
   genderTotals (add_segment spend revenue tp len st seg) =
     (genderTotals st)\<lparr>gt_female := add_gender_metrics (clicks_of seg)
        (js_mul spend (share_of tp len seg)) (js_mul revenue (share_of tp len seg))
        (gt_female (genderTotals st))\<rparr> \<and>
   genderAgeTotals (add_segment spend revenue tp len st seg) =
     (genderAgeTotals st)\<lparr>gat_female := add_age_metrics (ageGroup_of seg) (js_mul spend (share_of tp len seg))
       (js_mul revenue (share_of tp len seg)) (impressions_of seg) (clicks_of seg)
       (conversions_of seg) (gat_female (genderAgeTotals st))\<rparr>"
  by (simp add: add_segment_def Let_def)

lemma Map_get_add_age_metrics:
  "Map_get (add_age_metrics k s r i c v m) k' =
     (if k' = k then
        Some \<lparr>a_spend = js_add (a_spend (case Map_get m k of None \<Rightarrow> createEmptyAgeMetrics | Some t \<Rightarrow> t)) s,
              a_revenue = js_add (a_revenue (case Map_get m k of None \<Rightarrow> createEmptyAgeMetrics | Some t \<Rightarrow> t)) r,
              a_impressions = js_add (a_impressions (case Map_get m k of None \<Rightarrow> createEmptyAgeMetrics | Some t \<Rightarrow> t)) i,
              a_clicks = js_add (a_clicks (case Map_get m k of None \<Rightarrow> createEmptyAgeMetrics | Some t \<Rightarrow> t)) c,
              a_conversions = js_add (a_conversions (case Map_get m k of None \<Rightarrow> createEmptyAgeMetrics | Some t \<Rightarrow> t)) v\<rparr>
      else Map_get m k')"
  by (simp add: add_age_metrics_def Let_def Map_get_Map_set)

text \<open>
  One segment of a campaign, added by the body of the inner loop: what it does to the age
  totals, to the gender totals and to the two gender by age maps.
\<close>

lemma add_segment_effect:
  "(age_group seg = None \<longrightarrow> ageGroup_of seg = ''Unknown'')
   \<and> (\<forall>a. age_group seg = Some a \<longrightarrow> ageGroup_of seg = a)
   \<and> (gender seg = None \<longrightarrow> genderKey_of seg \<noteq> ''male'' \<and> genderKey_of seg \<noteq> ''female'')
   \<and> (\<forall>g. gender seg = Some g \<longrightarrow> genderKey_of seg = toLowerCase g)
   \<and> Map_get (ageTotals (add_segment spend revenue tp len st seg)) (ageGroup_of seg) =
       Some (plus_metrics (current_metrics (ageTotals st) (ageGroup_of seg))
               (js_mul spend (share_of tp len seg)) (js_mul revenue (share_of tp len seg))
               (impressions_of seg) (clicks_of seg) (conversions_of seg))
   \<and> (\<forall>k. k \<noteq> ageGroup_of seg \<longrightarrow>
         Map_get (ageTotals (add_segment spend revenue tp len st seg)) k = Map_get (ageTotals st) k)
   \<and> (genderKey_of seg \<noteq> ''male'' \<and> genderKey_of seg \<noteq> ''female'' \<longrightarrow>
         genderTotals (add_segment spend revenue tp len st seg) = genderTotals st \<and>
         genderAgeTotals (add_segment spend revenue tp len st seg) = genderAgeTotals st)
   \<and> (genderKey_of seg = ''male'' \<longrightarrow>
         gt_male (genderTotals (add_segment spend revenue tp len st seg)) =
           \<lparr>g_clicks = js_add (g_clicks (gt_male (genderTotals st))) (clicks_of seg),
            g_spend = js_add (g_spend (gt_male (genderTotals st))) (js_mul spend (share_of tp len seg)),
            g_revenue = js_add (g_revenue (gt_male (genderTotals st))) (js_mul revenue (share_of tp len seg))\<rparr>
         \<and> gt_female (genderTotals (add_segment spend revenue tp len st seg)) = gt_female (genderTotals st)
         \<and> Map_get (gat_male (genderAgeTotals (add_segment spend revenue tp len st seg))) (ageGroup_of seg) =
             Some (plus_metrics (current_metrics (gat_male (genderAgeTotals st)) (ageGroup_of seg))
               (js_mul spend (share_of tp len seg)) (js_mul revenue (share_of tp len seg))
               (impressions_of seg) (clicks_of seg) (conversions_of seg))
         \<and> (\<forall>k. k \<noteq> ageGroup_of seg \<longrightarrow>
               Map_get (gat_male (genderAgeTotals (add_segment spend revenue tp len st seg))) k =
               Map_get (gat_male (genderAgeTotals st)) k)
         \<and> gat_female (genderAgeTotals (add_segment spend revenue tp len st seg)) = gat_female (genderAgeTotals st))
   \<and> (genderKey_of seg = ''female'' \<longrightarrow>
         gt_female (genderTotals (add_segment spend revenue tp len st seg)) =
           \<lparr>g_clicks = js_add (g_clicks (gt_female (genderTotals st))) (clicks_of seg),
            g_spend = js_add (g_spend (gt_female (genderTotals st))) (js_mul spend (share_of tp len seg)),
            g_revenue = js_add (g_revenue (gt_female (genderTotals st))) (js_mul revenue (share_of tp len seg))\<rparr>
         \<and> gt_male (genderTotals (add_segment spend revenue tp len st seg)) = gt_male (genderTotals st)
         \<and> Map_get (gat_female (genderAgeTotals (add_segment spend revenue tp len st seg))) (ageGroup_of seg) =
             Some (plus_metrics (current_metrics (gat_female (genderAgeTotals st)) (ageGroup_of seg))
               (js_mul spend (share_of tp len seg)) (js_mul revenue (share_of tp len seg))
               (impressions_of seg) (clicks_of seg) (conversions_of seg))
         \<and> (\<forall>k. k \<noteq> ageGroup_of seg \<longrightarrow>
               Map_get (gat_female (genderAgeTotals (add_segment spend revenue tp len st seg))) k =
               Map_get (gat_female (genderAgeTotals st)) k)
         \<and> gat_male (genderAgeTotals (add_segment spend revenue tp len st seg)) = gat_male (genderAgeTotals st))"
proof -
  have names: "(age_group seg = None \<longrightarrow> ageGroup_of seg = ''Unknown'')
      \<and> (\<forall>a. age_group seg = Some a \<longrightarrow> ageGroup_of seg = a)
      \<and> (gender seg = None \<longrightarrow> genderKey_of seg \<noteq> ''male'' \<and> genderKey_of seg \<noteq> ''female'')
      \<and> (\<forall>g. gender seg = Some g \<longrightarrow> genderKey_of seg = toLowerCase g)"
    by (auto simp: ageGroup_of_def genderKey_of_def)
  have age: "Map_get (ageTotals (add_segment spend revenue tp len st seg)) k =
      (if k = ageGroup_of seg then
       Some (plus_metrics (current_metrics (ageTotals st) (ageGroup_of seg))
               (js_mul spend (share_of tp len seg)) (js_mul revenue (share_of tp len seg))
               (impressions_of seg) (clicks_of seg) (conversions_of seg)) else Map_get (ageTotals st) k)" for k
    by (simp add: ageTotals_add_segment Map_get_add_age_metrics plus_metrics_def current_metrics_def)
  have other: "genderKey_of seg \<noteq> ''male'' \<and> genderKey_of seg \<noteq> ''female'' \<longrightarrow>
         genderTotals (add_segment spend revenue tp len st seg) = genderTotals st \<and>
         genderAgeTotals (add_segment spend revenue tp len st seg) = genderAgeTotals st"
    by (simp add: other_gender_add_segment)
  show ?thesis
    using names other
    by (simp add: age male_add_segment female_add_segment Map_get_add_age_metrics
        add_gender_metrics_def plus_metrics_def current_metrics_def)
qed


text \<open>
  Where the loop body stands in the aggregator: the last segment of the last campaign is
  added to the state that the campaigns and segments before it have produced.
\<close>

lemma aggregate_last_segment:
  "demographic_breakdown c = Some (segs @ [seg]) \<Longrightarrow>
   aggregateCampaignMetrics (cs @ [c]) =
     add_segment (or_zero (c_spend c)) (or_zero (c_revenue c))
       (totalPercentage_of (segs @ [seg])) (length (segs @ [seg]))
       (foldl
          (add_segment (or_zero (c_spend c)) (or_zero (c_revenue c))
             (totalPercentage_of (segs @ [seg])) (length (segs @ [seg])))
          (aggregateCampaignMetrics cs) segs)
       seg"
  by (simp add: aggregateCampaignMetrics_def add_campaign_def or_empty_def Let_def)

lemma add_segment_apply:
  "add_segment spend revenue tp len st seg =
     apply_contribution st (contribution_of spend revenue tp len seg)"
  by (simp add: add_segment_def apply_contribution_def contribution_of_def Let_def add_to_map_def
      add_to_gender_def add_gender_metrics_def)

lemma add_campaign_apply:
  "add_campaign st c = foldl apply_contribution st (campaign_contributions c)"
proof -
  have "foldl (add_segment S R tp n) st segs =
        foldl apply_contribution st (map (contribution_of S R tp n) segs)" for S R tp n segs
    by (induction segs arbitrary: st) (simp_all add: add_segment_apply)
  then show ?thesis
    by (simp add: add_campaign_def campaign_contributions_def Let_def)
qed

lemma aggregate_apply:
  "aggregateCampaignMetrics campaigns =
     foldl apply_contribution initial_aggregation (all_contributions campaigns)"
proof -
  have "foldl add_campaign st campaigns = foldl apply_contribution st (all_contributions campaigns)"
    for st
    by (induction campaigns arbitrary: st) (simp_all add: all_contributions_def add_campaign_apply)
  then show ?thesis by (simp add: aggregateCampaignMetrics_def)
qed

lemma ageTotals_foldl_apply:
  "ageTotals (foldl apply_contribution st xs) = foldl add_to_map (ageTotals st) xs"
  by (induction xs arbitrary: st) (simp_all add: apply_contribution_def)

lemma gt_male_foldl_apply:
  "gt_male (genderTotals (foldl apply_contribution st xs)) =
     foldl add_to_gender (gt_male (genderTotals st)) (filter (\<lambda>x. k_gender x = ''male'') xs)"
  by (induction xs arbitrary: st) (simp_all add: apply_contribution_def)

lemma gt_female_foldl_apply:
  "gt_female (genderTotals (foldl apply_contribution st xs)) =
     foldl add_to_gender (gt_female (genderTotals st)) (filter (\<lambda>x. k_gender x = ''female'') xs)"
  by (induction xs arbitrary: st) (simp_all add: apply_contribution_def)

lemma gat_male_foldl_apply:
  "gat_male (genderAgeTotals (foldl apply_contribution st xs)) =
     foldl add_to_map (gat_male (genderAgeTotals st)) (filter (\<lambda>x. k_gender x = ''male'') xs)"
  by (induction xs arbitrary: st) (simp_all add: apply_contribution_def)

lemma gat_female_foldl_apply:
  "gat_female (genderAgeTotals (foldl apply_contribution st xs)) =
     foldl add_to_map (gat_female (genderAgeTotals st)) (filter (\<lambda>x. k_gender x = ''female'') xs)"
  by (induction xs arbitrary: st) (simp_all add: apply_contribution_def)

lemma Map_get_add_to_map:
  "Map_get (add_to_map m x) k =
     (if k = k_age x then Some (add_to_metrics (current_metrics m (k_age x)) x) else Map_get m k)"
  by (simp add: add_to_map_def Map_get_add_age_metrics add_to_metrics_def plus_metrics_def
      current_metrics_def)

lemma Map_get_foldl_add_to_map:
  "Map_get (foldl add_to_map m xs) k =
     (case filter (\<lambda>x. k_age x = k) xs of
        [] \<Rightarrow> Map_get m k
      | y # ys \<Rightarrow> Some (foldl add_to_metrics (current_metrics m k) (y # ys)))"
proof (induction xs arbitrary: m)
  case Nil
  then show ?case by simp
next
  case (Cons x xs)
  show ?case
  proof (cases "k_age x = k")
    case True
    then show ?thesis
      by (simp add: Cons.IH Map_get_add_to_map current_metrics_def split: list.splits)
  next
    case False
    then show ?thesis
      by (simp add: Cons.IH Map_get_add_to_map current_metrics_def split: list.splits)
  qed
qed

lemma Map_get_foldl_add_to_map_empty:
  "Map_get (foldl add_to_map [] xs) k = age_bucket k xs"
  by (simp add: Map_get_foldl_add_to_map age_bucket_def current_metrics_def Map_get_empty
      split: list.splits)

lemma aggregate_by_contributions:
  "(\<forall>k. Map_get (ageTotals (aggregateCampaignMetrics campaigns)) k =
          age_bucket k (all_contributions campaigns))
   \<and> gt_male (genderTotals (aggregateCampaignMetrics campaigns)) =
       gender_sum ''male'' (all_contributions campaigns)
   \<and> gt_female (genderTotals (aggregateCampaignMetrics campaigns)) =
       gender_sum ''female'' (all_contributions campaigns)
   \<and> (\<forall>k. Map_get (gat_male (genderAgeTotals (aggregateCampaignMetrics campaigns))) k =
          age_bucket k (filter (\<lambda>x. k_gender x = ''male'') (all_contributions campaigns)))
   \<and> (\<forall>k. Map_get (gat_female (genderAgeTotals (aggregateCampaignMetrics campaigns))) k =
          age_bucket k (filter (\<lambda>x. k_gender x = ''female'') (all_contributions campaigns)))"
  by (simp add: aggregate_apply ageTotals_foldl_apply gt_male_foldl_apply gt_female_foldl_apply
      gat_male_foldl_apply gat_female_foldl_apply initial_aggregation_def
      Map_get_foldl_add_to_map_empty gender_sum_def)

lemma segment_readers:
  "(\<forall>p c. performance seg = Some p \<and> perf_clicks p = Some c \<longrightarrow> clicks_of seg = c)
   \<and> (\<forall>p i. performance seg = Some p \<and> perf_impressions p = Some i \<longrightarrow> impressions_of seg = i)
   \<and> (\<forall>p v. performance seg = Some p \<and> perf_conversions p = Some v \<longrightarrow> conversions_of seg = v)
   \<and> (performance seg = None \<longrightarrow>
         clicks_of seg = Fin 0 \<and> impressions_of seg = Fin 0 \<and> conversions_of seg = Fin 0)
   \<and> (\<forall>p. percentage_of_audience seg = Some p \<and> js_gt tp (Fin 0) \<longrightarrow>
         share_of tp len seg = js_div p tp)
   \<and> (percentage_of_audience seg = None \<or> \<not> js_gt tp (Fin 0) \<longrightarrow>
         share_of tp len seg = js_div (Fin 1) (Fin (of_nat len)))"
  by (auto simp: clicks_of_def impressions_of_def conversions_of_def or_zero_def share_of_def
      split: option.splits)

text \<open>
  C3. For every campaign list, the result of \<open>aggregateCampaignMetrics\<close> in terms of the
  segments of the feed. The age totals of an age group are the sums over all segments with
  that age group (Unknown when the segment has none) of the impressions, clicks and
  conversions as they are (0 when absent) and of the share of the campaign's spend and
  revenue, whatever the gender of the segment. The male (female) totals are the sums of
  clicks and of the shares of spend and revenue over the segments whose gender, lowercased,
  is male (female), and the male (female) map has the age totals over those segments only:
  a segment with any other gender, or none, is in the age totals and in no gender total.
  The share is the percentage over the total percentage when the segment has one and the
  total is above 0, and one over the number of segments otherwise. The second and third
  part say the same of a single segment added to any state of the loop.
\<close>

theorem gender_filter_with_age_pass_through:
  "((\<forall>k. Map_get (ageTotals (aggregateCampaignMetrics campaigns)) k =
          age_bucket k (all_contributions campaigns))
   \<and> gt_male (genderTotals (aggregateCampaignMetrics campaigns)) =
       gender_sum ''male'' (all_contributions campaigns)
   \<and> gt_female (genderTotals (aggregateCampaignMetrics campaigns)) =
       gender_sum ''female'' (all_contributions campaigns)
   \<and> (\<forall>k. Map_get (gat_male (genderAgeTotals (aggregateCampaignMetrics campaigns))) k =
          age_bucket k (filter (\<lambda>x. k_gender x = ''male'') (all_contributions campaigns)))
   \<and> (\<forall>k. Map_get (gat_female (genderAgeTotals (aggregateCampaignMetrics campaigns))) k =
          age_bucket k (filter (\<lambda>x. k_gender x = ''female'') (all_contributions campaigns))))
   \<and> ((\<forall>p c. performance seg = Some p \<and> perf_clicks p = Some c \<longrightarrow> clicks_of seg = c)
   \<and> (\<forall>p i. performance seg = Some p \<and> perf_impressions p = Some i \<longrightarrow> impressions_of seg = i)
   \<and> (\<forall>p v. performance seg = Some p \<and> perf_conversions p = Some v \<longrightarrow> conversions_of seg = v)
   \<and> (performance seg = None \<longrightarrow>
         clicks_of seg = Fin 0 \<and> impressions_of seg = Fin 0 \<and> conversions_of seg = Fin 0)
   \<and> (\<forall>p. percentage_of_audience seg = Some p \<and> js_gt tp (Fin 0) \<longrightarrow>
         share_of tp len seg = js_div p tp)
   \<and> (percentage_of_audience seg = None \<or> \<not> js_gt tp (Fin 0) \<longrightarrow>
         share_of tp len seg = js_div (Fin 1) (Fin (of_nat len))))
   \<and> ((age_group seg = None \<longrightarrow> ageGroup_of seg = ''Unknown'')
   \<and> (\<forall>a. age_group seg = Some a \<longrightarrow> ageGroup_of seg = a)
   \<and> (gender seg = None \<longrightarrow> genderKey_of seg \<noteq> ''male'' \<and> genderKey_of seg \<noteq> ''female'')
   \<and> (\<forall>g. gender seg = Some g \<longrightarrow> genderKey_of seg = toLowerCase g)
   \<and> Map_get (ageTotals (add_segment spend revenue tp len st seg)) (ageGroup_of seg) =
       Some (plus_metrics (current_metrics (ageTotals st) (ageGroup_of seg))
               (js_mul spend (share_of tp len seg)) (js_mul revenue (share_of tp len seg))
               (impressions_of seg) (clicks_of seg) (conversions_of seg))
   \<and> (\<forall>k. k \<noteq> ageGroup_of seg \<longrightarrow>
         Map_get (ageTotals (add_segment spend revenue tp len st seg)) k = Map_get (ageTotals st) k)
   \<and> (genderKey_of seg \<noteq> ''male'' \<and> genderKey_of seg \<noteq> ''female'' \<longrightarrow>
         genderTotals (add_segment spend revenue tp len st seg) = genderTotals st \<and>
         genderAgeTotals (add_segment spend revenue tp len st seg) = genderAgeTotals st)
   \<and> (genderKey_of seg = ''male'' \<longrightarrow>
         gt_male (genderTotals (add_segment spend revenue tp len st seg)) =
           \<lparr>g_clicks = js_add (g_clicks (gt_male (genderTotals st))) (clicks_of seg),
            g_spend = js_add (g_spend (gt_male (genderTotals st))) (js_mul spend (share_of tp len seg)),
            g_revenue = js_add (g_revenue (gt_male (genderTotals st))) (js_mul revenue (share_of tp len seg))\<rparr>
         \<and> gt_female (genderTotals (add_segment spend revenue tp len st seg)) = gt_female (genderTotals st)
         \<and> Map_get (gat_male (genderAgeTotals (add_segment spend revenue tp len st seg))) (ageGroup_of seg) =
             Some (plus_metrics (current_metrics (gat_male (genderAgeTotals st)) (ageGroup_of seg))
               (js_mul spend (share_of tp len seg)) (js_mul revenue (share_of tp len seg))
               (impressions_of seg) (clicks_of seg) (conversions_of seg))
         \<and> (\<forall>k. k \<noteq> ageGroup_of seg \<longrightarrow>
               Map_get (gat_male (genderAgeTotals (add_segment spend revenue tp len st seg))) k =
               Map_get (gat_male (genderAgeTotals st)) k)
         \<and> gat_female (genderAgeTotals (add_segment spend revenue tp len st seg)) = gat_female (genderAgeTotals st))
   \<and> (genderKey_of seg = ''female'' \<longrightarrow>
         gt_female (genderTotals (add_segment spend revenue tp len st seg)) =
           \<lparr>g_clicks = js_add (g_clicks (gt_female (genderTotals st))) (clicks_of seg),
            g_spend = js_add (g_spend (gt_female (genderTotals st))) (js_mul spend (share_of tp len seg)),
            g_revenue = js_add (g_revenue (gt_female (genderTotals st))) (js_mul revenue (share_of tp len seg))\<rparr>
         \<and> gt_male (genderTotals (add_segment spend revenue tp len st seg)) = gt_male (genderTotals st)
         \<and> Map_get (gat_female (genderAgeTotals (add_segment spend revenue tp len st seg))) (ageGroup_of seg) =
             Some (plus_metrics (current_metrics (gat_female (genderAgeTotals st)) (ageGroup_of seg))
               (js_mul spend (share_of tp len seg)) (js_mul revenue (share_of tp len seg))
               (impressions_of seg) (clicks_of seg) (conversions_of seg))
         \<and> (\<forall>k. k \<noteq> ageGroup_of seg \<longrightarrow>
               Map_get (gat_female (genderAgeTotals (add_segment spend revenue tp len st seg))) k =
               Map_get (gat_female (genderAgeTotals st)) k)
         \<and> gat_male (genderAgeTotals (add_segment spend revenue tp len st seg)) = gat_male (genderAgeTotals st)))"
proof -
  have agg: "(\<forall>k. Map_get (ageTotals (aggregateCampaignMetrics campaigns)) k =
          age_bucket k (all_contributions campaigns))
   \<and> gt_male (genderTotals (aggregateCampaignMetrics campaigns)) =
       gender_sum ''male'' (all_contributions campaigns)
   \<and> gt_female (genderTotals (aggregateCampaignMetrics campaigns)) =
       gender_sum ''female'' (all_contributions campaigns)
   \<and> (\<forall>k. Map_get (gat_male (genderAgeTotals (aggregateCampaignMetrics campaigns))) k =
          age_bucket k (filter (\<lambda>x. k_gender x = ''male'') (all_contributions campaigns)))
   \<and> (\<forall>k. Map_get (gat_female (genderAgeTotals (aggregateCampaignMetrics campaigns))) k =
          age_bucket k (filter (\<lambda>x. k_gender x = ''female'') (all_contributions campaigns)))"
    by (rule aggregate_by_contributions)
  have old: "(age_group seg = None \<longrightarrow> ageGroup_of seg = ''Unknown'')
   \<and> (\<forall>a. age_group seg = Some a \<longrightarrow> ageGroup_of seg = a)
   \<and> (gender seg = None \<longrightarrow> genderKey_of seg \<noteq> ''male'' \<and> genderKey_of seg \<noteq> ''female'')
   \<and> (\<forall>g. gender seg = Some g \<longrightarrow> genderKey_of seg = toLowerCase g)
   \<and> Map_get (ageTotals (add_segment spend revenue tp len st seg)) (ageGroup_of seg) =
       Some (plus_metrics (current_metrics (ageTotals st) (ageGroup_of seg))
               (js_mul spend (share_of tp len seg)) (js_mul revenue (share_of tp len seg))
               (impressions_of seg) (clicks_of seg) (conversions_of seg))
   \<and> (\<forall>k. k \<noteq> ageGroup_of seg \<longrightarrow>
         Map_get (ageTotals (add_segment spend revenue tp len st seg)) k = Map_get (ageTotals st) k)
   \<and> (genderKey_of seg \<noteq> ''male'' \<and> genderKey_of seg \<noteq> ''female'' \<longrightarrow>
         genderTotals (add_segment spend revenue tp len st seg) = genderTotals st \<and>
         genderAgeTotals (add_segment spend revenue tp len st seg) = genderAgeTotals st)
   \<and> (genderKey_of seg = ''male'' \<longrightarrow>
         gt_male (genderTotals (add_segment spend revenue tp len st seg)) =
           \<lparr>g_clicks = js_add (g_clicks (gt_male (genderTotals st))) (clicks_of seg),
            g_spend = js_add (g_spend (gt_male (genderTotals st))) (js_mul spend (share_of tp len seg)),
            g_revenue = js_add (g_revenue (gt_male (genderTotals st))) (js_mul revenue (share_of tp len seg))\<rparr>
         \<and> gt_female (genderTotals (add_segment spend revenue tp len st seg)) = gt_female (genderTotals st)
         \<and> Map_get (gat_male (genderAgeTotals (add_segment spend revenue tp len st seg))) (ageGroup_of seg) =
             Some (plus_metrics (current_metrics (gat_male (genderAgeTotals st)) (ageGroup_of seg))
               (js_mul spend (share_of tp len seg)) (js_mul revenue (share_of tp len seg))
               (impressions_of seg) (clicks_of seg) (conversions_of seg))
         \<and> (\<forall>k. k \<noteq> ageGroup_of seg \<longrightarrow>
               Map_get (gat_male (genderAgeTotals (add_segment spend revenue tp len st seg))) k =
               Map_get (gat_male (genderAgeTotals st)) k)
         \<and> gat_female (genderAgeTotals (add_segment spend revenue tp len st seg)) = gat_female (genderAgeTotals st))
   \<and> (genderKey_of seg = ''female'' \<longrightarrow>
         gt_female (genderTotals (add_segment spend revenue tp len st seg)) =
           \<lparr>g_clicks = js_add (g_clicks (gt_female (genderTotals st))) (clicks_of seg),
            g_spend = js_add (g_spend (gt_female (genderTotals st))) (js_mul spend (share_of tp len seg)),
            g_revenue = js_add (g_revenue (gt_female (genderTotals st))) (js_mul revenue (share_of tp len seg))\<rparr>
         \<and> gt_male (genderTotals (add_segment spend revenue tp len st seg)) = gt_male (genderTotals st)
         \<and> Map_get (gat_female (genderAgeTotals (add_segment spend revenue tp len st seg))) (ageGroup_of seg) =
             Some (plus_metrics (current_metrics (gat_female (genderAgeTotals st)) (ageGroup_of seg))
               (js_mul spend (share_of tp len seg)) (js_mul revenue (share_of tp len seg))
               (impressions_of seg) (clicks_of seg) (conversions_of seg))
         \<and> (\<forall>k. k \<noteq> ageGroup_of seg \<longrightarrow>
               Map_get (gat_female (genderAgeTotals (add_segment spend revenue tp len st seg))) k =
               Map_get (gat_female (genderAgeTotals st)) k)
         \<and> gat_male (genderAgeTotals (add_segment spend revenue tp len st seg)) = gat_male (genderAgeTotals st))"
    by (rule add_segment_effect)
  show ?thesis
    by (rule conjI [OF agg conjI [OF segment_readers [of seg tp len] old]])
qed

theorem gender_filter_with_age_pass_through_witness:
  "(genderKey_of (segment None None None 800 40 2) \<noteq> ''male''
   \<and> genderKey_of (segment None None None 800 40 2) \<noteq> ''female''
   \<and> genderTotals (add_segment (Fin 100) (Fin 0) (Fin 0) 2 initial_aggregation
         (segment None None None 800 40 2)) = genderTotals initial_aggregation
   \<and> genderAgeTotals (add_segment (Fin 100) (Fin 0) (Fin 0) 2 initial_aggregation
         (segment None None None 800 40 2)) = genderAgeTotals initial_aggregation
   \<and> Map_get (ageTotals (add_segment (Fin 100) (Fin 0) (Fin 0) 2 initial_aggregation
         (segment None None None 800 40 2))) ''Unknown'' =
       Some \<lparr>a_spend = Fin 50, a_revenue = Fin 0, a_impressions = Fin 800, a_clicks = Fin 40,
             a_conversions = Fin 2\<rparr>
   \<and> genderKey_of (segment (Some ''MALE'') (Some ''18-24'') (Some (Fin 60)) 1000 50 5) = ''male''
   \<and> gt_male (genderTotals (add_segment (Fin 100) (Fin 0) (Fin 100) 2 initial_aggregation
         (segment (Some ''MALE'') (Some ''18-24'') (Some (Fin 60)) 1000 50 5))) =
       \<lparr>g_clicks = Fin 50, g_spend = Fin 60, g_revenue = Fin 0\<rparr>
   \<and> genderKey_of (segment (Some ''Female'') (Some ''25-34'') (Some (Fin 40)) 800 40 2) = ''female''
   \<and> gt_female (genderTotals (add_segment (Fin 100) (Fin 0) (Fin 100) 2 initial_aggregation
         (segment (Some ''Female'') (Some ''25-34'') (Some (Fin 40)) 800 40 2))) =
       \<lparr>g_clicks = Fin 40, g_spend = Fin 40, g_revenue = Fin 0\<rparr>)
   \<and> (gt_male (genderTotals (aggregateCampaignMetrics
       [demographic_campaign (Some (Fin 100)) (Some (Fin 300))
          (Some [segment (Some ''male'') (Some ''18-24'') (Some (Fin 60)) 1000 50 5,
                 segment (Some ''female'') (Some ''25-34'') (Some (Fin 40)) 800 40 2]),
        demographic_campaign (Some (Fin 50)) None
          (Some [segment (Some ''MALE'') (Some ''18-24'') None 500 10 1]),
        demographic_campaign (Some (Fin 30)) None
          (Some [segment (Some ''other'') None None 800 40 2])])) = \<lparr>g_clicks = Fin 60, g_spend = Fin 110, g_revenue = Fin 180\<rparr>
   \<and> gt_female (genderTotals (aggregateCampaignMetrics
       [demographic_campaign (Some (Fin 100)) (Some (Fin 300))
          (Some [segment (Some ''male'') (Some ''18-24'') (Some (Fin 60)) 1000 50 5,
                 segment (Some ''female'') (Some ''25-34'') (Some (Fin 40)) 800 40 2]),
        demographic_campaign (Some (Fin 50)) None
          (Some [segment (Some ''MALE'') (Some ''18-24'') None 500 10 1]),
        demographic_campaign (Some (Fin 30)) None
          (Some [segment (Some ''other'') None None 800 40 2])])) = \<lparr>g_clicks = Fin 40, g_spend = Fin 40, g_revenue = Fin 120\<rparr>
   \<and> Map_get (ageTotals (aggregateCampaignMetrics
       [demographic_campaign (Some (Fin 100)) (Some (Fin 300))
          (Some [segment (Some ''male'') (Some ''18-24'') (Some (Fin 60)) 1000 50 5,
                 segment (Some ''female'') (Some ''25-34'') (Some (Fin 40)) 800 40 2]),
        demographic_campaign (Some (Fin 50)) None
          (Some [segment (Some ''MALE'') (Some ''18-24'') None 500 10 1]),
        demographic_campaign (Some (Fin 30)) None
          (Some [segment (Some ''other'') None None 800 40 2])])) ''Unknown'' =
       Some \<lparr>a_spend = Fin 30, a_revenue = Fin 0, a_impressions = Fin 800, a_clicks = Fin 40,
             a_conversions = Fin 2\<rparr>
   \<and> Map_get (gat_male (genderAgeTotals (aggregateCampaignMetrics
       [demographic_campaign (Some (Fin 100)) (Some (Fin 300))
          (Some [segment (Some ''male'') (Some ''18-24'') (Some (Fin 60)) 1000 50 5,
                 segment (Some ''female'') (Some ''25-34'') (Some (Fin 40)) 800 40 2]),
        demographic_campaign (Some (Fin 50)) None
          (Some [segment (Some ''MALE'') (Some ''18-24'') None 500 10 1]),
        demographic_campaign (Some (Fin 30)) None
          (Some [segment (Some ''other'') None None 800 40 2])]))) ''Unknown'' = None
   \<and> Map_get (gat_female (genderAgeTotals (aggregateCampaignMetrics
       [demographic_campaign (Some (Fin 100)) (Some (Fin 300))
          (Some [segment (Some ''male'') (Some ''18-24'') (Some (Fin 60)) 1000 50 5,
                 segment (Some ''female'') (Some ''25-34'') (Some (Fin 40)) 800 40 2]),
        demographic_campaign (Some (Fin 50)) None
          (Some [segment (Some ''MALE'') (Some ''18-24'') None 500 10 1]),
        demographic_campaign (Some (Fin 30)) None
          (Some [segment (Some ''other'') None None 800 40 2])]))) ''Unknown'' = None)"
proof -
  let ?E = "[demographic_campaign (Some (Fin 100)) (Some (Fin 300))
          (Some [segment (Some ''male'') (Some ''18-24'') (Some (Fin 60)) 1000 50 5,
                 segment (Some ''female'') (Some ''25-34'') (Some (Fin 40)) 800 40 2]),
        demographic_campaign (Some (Fin 50)) None
          (Some [segment (Some ''MALE'') (Some ''18-24'') None 500 10 1]),
        demographic_campaign (Some (Fin 30)) None
          (Some [segment (Some ''other'') None None 800 40 2])]"
  have old: "genderKey_of (segment None None None 800 40 2) \<noteq> ''male''
   \<and> genderKey_of (segment None None None 800 40 2) \<noteq> ''female''
   \<and> genderTotals (add_segment (Fin 100) (Fin 0) (Fin 0) 2 initial_aggregation
         (segment None None None 800 40 2)) = genderTotals initial_aggregation
   \<and> genderAgeTotals (add_segment (Fin 100) (Fin 0) (Fin 0) 2 initial_aggregation
         (segment None None None 800 40 2)) = genderAgeTotals initial_aggregation
   \<and> Map_get (ageTotals (add_segment (Fin 100) (Fin 0) (Fin 0) 2 initial_aggregation
         (segment None None None 800 40 2))) ''Unknown'' =
       Some \<lparr>a_spend = Fin 50, a_revenue = Fin 0, a_impressions = Fin 800, a_clicks = Fin 40,
             a_conversions = Fin 2\<rparr>
   \<and> genderKey_of (segment (Some ''MALE'') (Some ''18-24'') (Some (Fin 60)) 1000 50 5) = ''male''
   \<and> gt_male (genderTotals (add_segment (Fin 100) (Fin 0) (Fin 100) 2 initial_aggregation
         (segment (Some ''MALE'') (Some ''18-24'') (Some (Fin 60)) 1000 50 5))) =
       \<lparr>g_clicks = Fin 50, g_spend = Fin 60, g_revenue = Fin 0\<rparr>
   \<and> genderKey_of (segment (Some ''Female'') (Some ''25-34'') (Some (Fin 40)) 800 40 2) = ''female''
   \<and> gt_female (genderTotals (add_segment (Fin 100) (Fin 0) (Fin 100) 2 initial_aggregation
         (segment (Some ''Female'') (Some ''25-34'') (Some (Fin 40)) 800 40 2))) =
       \<lparr>g_clicks = Fin 40, g_spend = Fin 40, g_revenue = Fin 0\<rparr>"
  proof -
    have k1: "genderKey_of (segment None None None 800 40 2) \<noteq> ''male''
        \<and> genderKey_of (segment None None None 800 40 2) \<noteq> ''female''"
      by (simp add: genderKey_of_def segment_def)
    have k2: "genderKey_of (segment (Some ''MALE'') (Some ''18-24'') (Some (Fin 60)) 1000 50 5) = ''male''"
      by code_simp
    have k3: "genderKey_of (segment (Some ''Female'') (Some ''25-34'') (Some (Fin 40)) 800 40 2) = ''female''"
      by code_simp
    have e1: "ageGroup_of (segment None None None 800 40 2) = ''Unknown''"
      by (simp add: ageGroup_of_def segment_def)
    have e2: "plus_metrics (current_metrics (ageTotals initial_aggregation) ''Unknown'')
                 (js_mul (Fin 100) (share_of (Fin 0) 2 (segment None None None 800 40 2)))
                 (js_mul (Fin 0) (share_of (Fin 0) 2 (segment None None None 800 40 2)))
                 (impressions_of (segment None None None 800 40 2))
                 (clicks_of (segment None None None 800 40 2))
                 (conversions_of (segment None None None 800 40 2)) =
              \<lparr>a_spend = Fin 50, a_revenue = Fin 0, a_impressions = Fin 800, a_clicks = Fin 40,
               a_conversions = Fin 2\<rparr>"
      by (simp add: plus_metrics_def current_metrics_def initial_aggregation_def Map_get_def
          share_of_def segment_def impressions_of_def clicks_of_def conversions_of_def or_zero_def
          createEmptyAgeMetrics_def)
    have e3: "js_mul (Fin 100) (share_of (Fin 100) 2
                 (segment (Some ''MALE'') (Some ''18-24'') (Some (Fin 60)) 1000 50 5)) = Fin 60
        \<and> js_mul (Fin 0) (share_of (Fin 100) 2
                 (segment (Some ''MALE'') (Some ''18-24'') (Some (Fin 60)) 1000 50 5)) = Fin 0
        \<and> clicks_of (segment (Some ''MALE'') (Some ''18-24'') (Some (Fin 60)) 1000 50 5) = Fin 50"
      by (simp add: share_of_def segment_def clicks_of_def or_zero_def)
    have e4: "js_mul (Fin 100) (share_of (Fin 100) 2
                 (segment (Some ''Female'') (Some ''25-34'') (Some (Fin 40)) 800 40 2)) = Fin 40
        \<and> js_mul (Fin 0) (share_of (Fin 100) 2
                 (segment (Some ''Female'') (Some ''25-34'') (Some (Fin 40)) 800 40 2)) = Fin 0
        \<and> clicks_of (segment (Some ''Female'') (Some ''25-34'') (Some (Fin 40)) 800 40 2) = Fin 40"
      by (simp add: share_of_def segment_def clicks_of_def or_zero_def)
    have z: "gt_male (genderTotals initial_aggregation) = \<lparr>g_clicks = Fin 0, g_spend = Fin 0, g_revenue = Fin 0\<rparr>
        \<and> gt_female (genderTotals initial_aggregation) = \<lparr>g_clicks = Fin 0, g_spend = Fin 0, g_revenue = Fin 0\<rparr>"
      by (simp add: initial_aggregation_def)
    show ?thesis
      using k1 k2 k3
        gender_filter_with_age_pass_through [where seg = "segment None None None 800 40 2" and spend = "Fin 100" and revenue = "Fin 0"
            and tp = "Fin 0" and len = 2 and st = initial_aggregation, THEN conjunct2, THEN conjunct2]
        gender_filter_with_age_pass_through [where seg = "segment (Some ''MALE'') (Some ''18-24'') (Some (Fin 60)) 1000 50 5"
            and spend = "Fin 100" and revenue = "Fin 0" and tp = "Fin 100" and len = 2
            and st = initial_aggregation, THEN conjunct2, THEN conjunct2]
        gender_filter_with_age_pass_through [where seg = "segment (Some ''Female'') (Some ''25-34'') (Some (Fin 40)) 800 40 2"
            and spend = "Fin 100" and revenue = "Fin 0" and tp = "Fin 100" and len = 2
            and st = initial_aggregation, THEN conjunct2, THEN conjunct2]
      by (simp add: e1 e2 e3 e4 z)
  qed
  have s1: "gender_sum ''male'' (all_contributions ?E) =
      \<lparr>g_clicks = Fin 60, g_spend = Fin 110, g_revenue = Fin 180\<rparr>"
    by code_simp
  have s2: "gender_sum ''female'' (all_contributions ?E) =
      \<lparr>g_clicks = Fin 40, g_spend = Fin 40, g_revenue = Fin 120\<rparr>"
    by code_simp
  have s3: "age_bucket ''Unknown'' (all_contributions ?E) =
      Some \<lparr>a_spend = Fin 30, a_revenue = Fin 0, a_impressions = Fin 800, a_clicks = Fin 40,
            a_conversions = Fin 2\<rparr>"
    by code_simp
  have s4: "age_bucket ''Unknown'' (filter (\<lambda>x. k_gender x = ''male'') (all_contributions ?E)) = None"
    by code_simp
  have s5: "age_bucket ''Unknown'' (filter (\<lambda>x. k_gender x = ''female'') (all_contributions ?E)) = None"
    by code_simp
  have new: "gt_male (genderTotals (aggregateCampaignMetrics
       [demographic_campaign (Some (Fin 100)) (Some (Fin 300))
          (Some [segment (Some ''male'') (Some ''18-24'') (Some (Fin 60)) 1000 50 5,
                 segment (Some ''female'') (Some ''25-34'') (Some (Fin 40)) 800 40 2]),
        demographic_campaign (Some (Fin 50)) None
          (Some [segment (Some ''MALE'') (Some ''18-24'') None 500 10 1]),
        demographic_campaign (Some (Fin 30)) None
          (Some [segment (Some ''other'') None None 800 40 2])])) = \<lparr>g_clicks = Fin 60, g_spend = Fin 110, g_revenue = Fin 180\<rparr>
   \<and> gt_female (genderTotals (aggregateCampaignMetrics
       [demographic_campaign (Some (Fin 100)) (Some (Fin 300))
          (Some [segment (Some ''male'') (Some ''18-24'') (Some (Fin 60)) 1000 50 5,
                 segment (Some ''female'') (Some ''25-34'') (Some (Fin 40)) 800 40 2]),
        demographic_campaign (Some (Fin 50)) None
          (Some [segment (Some ''MALE'') (Some ''18-24'') None 500 10 1]),
        demographic_campaign (Some (Fin 30)) None
          (Some [segment (Some ''other'') None None 800 40 2])])) = \<lparr>g_clicks = Fin 40, g_spend = Fin 40, g_revenue = Fin 120\<rparr>
   \<and> Map_get (ageTotals (aggregateCampaignMetrics
       [demographic_campaign (Some (Fin 100)) (Some (Fin 300))
          (Some [segment (Some ''male'') (Some ''18-24'') (Some (Fin 60)) 1000 50 5,
                 segment (Some ''female'') (Some ''25-34'') (Some (Fin 40)) 800 40 2]),
        demographic_campaign (Some (Fin 50)) None
          (Some [segment (Some ''MALE'') (Some ''18-24'') None 500 10 1]),
        demographic_campaign (Some (Fin 30)) None
          (Some [segment (Some ''other'') None None 800 40 2])])) ''Unknown'' =
       Some \<lparr>a_spend = Fin 30, a_revenue = Fin 0, a_impressions = Fin 800, a_clicks = Fin 40,
             a_conversions = Fin 2\<rparr>
   \<and> Map_get (gat_male (genderAgeTotals (aggregateCampaignMetrics
       [demographic_campaign (Some (Fin 100)) (Some (Fin 300))
          (Some [segment (Some ''male'') (Some ''18-24'') (Some (Fin 60)) 1000 50 5,
                 segment (Some ''female'') (Some ''25-34'') (Some (Fin 40)) 800 40 2]),
        demographic_campaign (Some (Fin 50)) None
          (Some [segment (Some ''MALE'') (Some ''18-24'') None 500 10 1]),
        demographic_campaign (Some (Fin 30)) None
          (Some [segment (Some ''other'') None None 800 40 2])]))) ''Unknown'' = None
   \<and> Map_get (gat_female (genderAgeTotals (aggregateCampaignMetrics
       [demographic_campaign (Some (Fin 100)) (Some (Fin 300))
          (Some [segment (Some ''male'') (Some ''18-24'') (Some (Fin 60)) 1000 50 5,
                 segment (Some ''female'') (Some ''25-34'') (Some (Fin 40)) 800 40 2]),
        demographic_campaign (Some (Fin 50)) None
          (Some [segment (Some ''MALE'') (Some ''18-24'') None 500 10 1]),
        demographic_campaign (Some (Fin 30)) None
          (Some [segment (Some ''other'') None None 800 40 2])]))) ''Unknown'' = None"
    using gender_filter_with_age_pass_through [where campaigns = ?E, THEN conjunct1]
    by (simp add: s1 s2 s3 s4 s5)
  show ?thesis
    by (rule conjI [OF old new])
qed

section \<open>Derived metrics\<close>


lemma enrichMetrics_eq:
  "enrichMetrics m =
     [(''mobile'', enrich_one (totalClicks_of m)
         (case Map_get m ''mobile'' of None \<Rightarrow> empty_device_aggregate ''mobile'' | Some a \<Rightarrow> a)),
      (''desktop'', enrich_one (totalClicks_of m)
         (case Map_get m ''desktop'' of None \<Rightarrow> empty_device_aggregate ''desktop'' | Some a \<Rightarrow> a))]"
  by (simp add: enrichMetrics_def DEVICE_ORDER_def)






section \<open>The device filter\<close>

lemma add_device_other:
  "map_option toLowerCase (device stat) \<noteq> Some ''mobile'' \<Longrightarrow>
   map_option toLowerCase (device stat) \<noteq> Some ''desktop'' \<Longrightarrow> add_device m stat = m"
  by (auto simp: add_device_def split: option.splits)

lemma add_device_match:
  assumes "map_option toLowerCase (device stat) = Some key" "key = ''mobile'' \<or> key = ''desktop''"
  shows "add_device m stat =
     Map_set key
       ((case Map_get m key of None \<Rightarrow> empty_device_aggregate key | Some e \<Rightarrow> e)
          \<lparr>da_impressions := js_add (da_impressions (case Map_get m key of None \<Rightarrow> empty_device_aggregate key | Some e \<Rightarrow> e))
                               (finite_or_zero (or_zero (ds_impressions stat))),
           da_clicks := js_add (da_clicks (case Map_get m key of None \<Rightarrow> empty_device_aggregate key | Some e \<Rightarrow> e))
                               (finite_or_zero (or_zero (ds_clicks stat))),
           da_conversions := js_add (da_conversions (case Map_get m key of None \<Rightarrow> empty_device_aggregate key | Some e \<Rightarrow> e))
                               (finite_or_zero (or_zero (ds_conversions stat))),
           da_spend := js_add (da_spend (case Map_get m key of None \<Rightarrow> empty_device_aggregate key | Some e \<Rightarrow> e))
                               (finite_or_zero (or_zero (ds_spend stat))),
           da_revenue := js_add (da_revenue (case Map_get m key of None \<Rightarrow> empty_device_aggregate key | Some e \<Rightarrow> e))
                               (finite_or_zero (or_zero (ds_revenue stat)))\<rparr>) m"
  using assms by (auto simp: add_device_def Let_def split: option.splits)

lemma add_device_keys:
  "set (Map_keys (add_device m stat)) \<subseteq> set (Map_keys m) \<union> {''mobile'', ''desktop''}"
proof (cases "map_option toLowerCase (device stat) = Some ''mobile'' \<or>
              map_option toLowerCase (device stat) = Some ''desktop''")
  case True
  then obtain key where k: "map_option toLowerCase (device stat) = Some key"
      "key = ''mobile'' \<or> key = ''desktop''" by blast
  show ?thesis
    unfolding add_device_match [OF k] using k(2) by (auto simp: Map_keys_Map_set)
next
  case False
  then have "add_device m stat = m" using add_device_other [of stat m] by blast
  then show ?thesis by auto
qed

lemma foldl_add_device_keys:
  "set (Map_keys m) \<subseteq> {''mobile'', ''desktop''} \<Longrightarrow>
   set (Map_keys (foldl add_device m stats)) \<subseteq> {''mobile'', ''desktop''}"
proof (induction stats arbitrary: m)
  case Nil
  then show ?case by simp
next
  case (Cons stat stats)
  have "set (Map_keys (add_device m stat)) \<subseteq> {''mobile'', ''desktop''}"
    using add_device_keys [of m stat] Cons.prems by blast
  then show ?case using Cons.IH by simp
qed

lemma device_totals_keys:
  "set (Map_keys m) \<subseteq> {''mobile'', ''desktop''} \<Longrightarrow>
   set (Map_keys (foldl (\<lambda>totals campaign. foldl add_device totals (or_empty (device_performance campaign))) m campaigns))
     \<subseteq> {''mobile'', ''desktop''}"
proof (induction campaigns arbitrary: m)
  case Nil
  then show ?case by simp
next
  case (Cons c cs)
  from foldl_add_device_keys [OF Cons.prems]
  have "set (Map_keys (foldl add_device m (or_empty (device_performance c)))) \<subseteq> {''mobile'', ''desktop''}" .
  from Cons.IH [OF this] show ?case by simp
qed

lemma zero_share: "js_gt tc (Fin 0) \<Longrightarrow> js_mul (js_div (Fin 0) tc) (Fin 100) = Fin 0"
  by (cases tc) (auto simp: inf_of_sign_def)

lemma enrich_one_empty:
  "enrich_one tc (empty_device_aggregate key) =
     \<lparr>da_device = map_of DEVICE_LABELS key, da_impressions = Fin 0, da_clicks = Fin 0,
      da_conversions = Fin 0, da_spend = Fin 0, da_revenue = Fin 0,
      ctr = Fin 0, conversionRate = Fin 0, roas = None, trafficShare = Fin 0\<rparr>"
  by (simp add: enrich_one_def empty_device_aggregate_def zero_share)

text \<open>
  One device record, added by the body of the inner loop, and the enriched output of any
  totals.
\<close>

lemma add_device_effect:
  "(map_option toLowerCase (device stat) \<noteq> Some ''mobile'' \<and>
    map_option toLowerCase (device stat) \<noteq> Some ''desktop'' \<longrightarrow> add_device m stat = m)
   \<and> (map_option toLowerCase (device stat) = Some key \<and> (key = ''mobile'' \<or> key = ''desktop'') \<longrightarrow>
        (\<exists>existing.
           existing = (case Map_get m key of None \<Rightarrow> empty_device_aggregate key | Some e \<Rightarrow> e) \<and>
           Map_get (add_device m stat) key =
             Some (existing
                   \<lparr>da_impressions := js_add (da_impressions existing) (finite_or_zero (or_zero (ds_impressions stat))),
                    da_clicks := js_add (da_clicks existing) (finite_or_zero (or_zero (ds_clicks stat))),
                    da_conversions := js_add (da_conversions existing) (finite_or_zero (or_zero (ds_conversions stat))),
                    da_spend := js_add (da_spend existing) (finite_or_zero (or_zero (ds_spend stat))),
                    da_revenue := js_add (da_revenue existing) (finite_or_zero (or_zero (ds_revenue stat)))\<rparr>))
        \<and> (\<forall>k. k \<noteq> key \<longrightarrow> Map_get (add_device m stat) k = Map_get m k))
   \<and> (\<forall>x. finite_or_zero (or_zero (Some (Fin x))) = Fin x)
   \<and> set (Map_keys (aggregateDevicePerformance campaigns)) \<subseteq> {''mobile'', ''desktop''}
   \<and> Map_keys (enrichMetrics m) = [''mobile'', ''desktop'']
   \<and> (Map_get m key = None \<and> (key = ''mobile'' \<or> key = ''desktop'') \<longrightarrow>
        Map_get (enrichMetrics m) key =
          Some \<lparr>da_device = map_of DEVICE_LABELS key, da_impressions = Fin 0, da_clicks = Fin 0,
                da_conversions = Fin 0, da_spend = Fin 0, da_revenue = Fin 0,
                ctr = Fin 0, conversionRate = Fin 0, roas = None, trafficShare = Fin 0\<rparr>)"
proof (intro conjI impI allI)
  show "set (Map_keys (aggregateDevicePerformance campaigns)) \<subseteq> {''mobile'', ''desktop''}"
    unfolding aggregateDevicePerformance_def
    by (rule device_totals_keys) (simp add: Map_keys_def)
next
  show "Map_keys (enrichMetrics m) = [''mobile'', ''desktop'']"
    by (simp add: enrichMetrics_eq Map_keys_def)
next
  assume "Map_get m key = None \<and> (key = ''mobile'' \<or> key = ''desktop'')"
  then show "Map_get (enrichMetrics m) key =
          Some \<lparr>da_device = map_of DEVICE_LABELS key, da_impressions = Fin 0, da_clicks = Fin 0,
                da_conversions = Fin 0, da_spend = Fin 0, da_revenue = Fin 0,
                ctr = Fin 0, conversionRate = Fin 0, roas = None, trafficShare = Fin 0\<rparr>"
    by (auto simp: enrichMetrics_eq Map_get_def enrich_one_empty)
next
  fix x show "finite_or_zero (or_zero (Some (Fin x))) = Fin x"
    by (simp add: finite_or_zero_def or_zero_def)
next
  assume "map_option toLowerCase (device stat) \<noteq> Some ''mobile'' \<and>
    map_option toLowerCase (device stat) \<noteq> Some ''desktop''"
  then show "add_device m stat = m" by (simp add: add_device_other)
next
  assume a: "map_option toLowerCase (device stat) = Some key \<and> (key = ''mobile'' \<or> key = ''desktop'')"
  then have eq: "add_device m stat = Map_set key
       ((case Map_get m key of None \<Rightarrow> empty_device_aggregate key | Some e \<Rightarrow> e)
          \<lparr>da_impressions := js_add (da_impressions (case Map_get m key of None \<Rightarrow> empty_device_aggregate key | Some e \<Rightarrow> e))
                               (finite_or_zero (or_zero (ds_impressions stat))),
           da_clicks := js_add (da_clicks (case Map_get m key of None \<Rightarrow> empty_device_aggregate key | Some e \<Rightarrow> e))
                               (finite_or_zero (or_zero (ds_clicks stat))),
           da_conversions := js_add (da_conversions (case Map_get m key of None \<Rightarrow> empty_device_aggregate key | Some e \<Rightarrow> e))
                               (finite_or_zero (or_zero (ds_conversions stat))),
           da_spend := js_add (da_spend (case Map_get m key of None \<Rightarrow> empty_device_aggregate key | Some e \<Rightarrow> e))
                               (finite_or_zero (or_zero (ds_spend stat))),
           da_revenue := js_add (da_revenue (case Map_get m key of None \<Rightarrow> empty_device_aggregate key | Some e \<Rightarrow> e))
                               (finite_or_zero (or_zero (ds_revenue stat)))\<rparr>) m"
    using add_device_match by blast
  show "\<exists>existing.
           existing = (case Map_get m key of None \<Rightarrow> empty_device_aggregate key | Some e \<Rightarrow> e) \<and>
           Map_get (add_device m stat) key =
             Some (existing
                   \<lparr>da_impressions := js_add (da_impressions existing) (finite_or_zero (or_zero (ds_impressions stat))),
                    da_clicks := js_add (da_clicks existing) (finite_or_zero (or_zero (ds_clicks stat))),
                    da_conversions := js_add (da_conversions existing) (finite_or_zero (or_zero (ds_conversions stat))),
                    da_spend := js_add (da_spend existing) (finite_or_zero (or_zero (ds_spend stat))),
                    da_revenue := js_add (da_revenue existing) (finite_or_zero (or_zero (ds_revenue stat)))\<rparr>)"
    by (simp add: eq Map_get_Map_set)
  fix k assume "k \<noteq> key"
  then show "Map_get (add_device m stat) k = Map_get m k"
    by (simp add: eq Map_get_Map_set)
qed

lemma Map_get_add_device_raw:
  "Map_get (add_device m s) key =
     (if (key = ''mobile'' \<or> key = ''desktop'') \<and> map_option toLowerCase (device s) = Some key
      then Some (absorb_device
                   (case Map_get m key of None \<Rightarrow> empty_device_aggregate key | Some e \<Rightarrow> e) s)
      else Map_get m key)"
proof (cases "map_option toLowerCase (device s) = Some ''mobile'' \<or>
              map_option toLowerCase (device s) = Some ''desktop''")
  case True
  then obtain k where k: "map_option toLowerCase (device s) = Some k"
      "k = ''mobile'' \<or> k = ''desktop''" by blast
  show ?thesis
    unfolding add_device_match [OF k] using k
    by (auto simp: Map_get_Map_set absorb_device_def)
next
  case False
  then have "add_device m s = m" using add_device_other [of s m] by blast
  with False show ?thesis by auto
qed

lemma Map_get_add_device:
  "Map_get (add_device m s) key =
     (if (key = ''mobile'' \<or> key = ''desktop'') \<and> device_label s = Some key
      then Some (absorb_device
                   (case Map_get m key of None \<Rightarrow> empty_device_aggregate key | Some e \<Rightarrow> e) s)
      else Map_get m key)"
  unfolding device_label_def by (rule Map_get_add_device_raw)

lemma foldl_absorb_device:
  "foldl absorb_device e stats =
     e\<lparr>da_impressions := foldl (\<lambda>sum s. js_add sum (finite_or_zero (or_zero (ds_impressions s))))
                            (da_impressions e) stats,
       da_clicks := foldl (\<lambda>sum s. js_add sum (finite_or_zero (or_zero (ds_clicks s))))
                            (da_clicks e) stats,
       da_conversions := foldl (\<lambda>sum s. js_add sum (finite_or_zero (or_zero (ds_conversions s))))
                            (da_conversions e) stats,
       da_spend := foldl (\<lambda>sum s. js_add sum (finite_or_zero (or_zero (ds_spend s))))
                            (da_spend e) stats,
       da_revenue := foldl (\<lambda>sum s. js_add sum (finite_or_zero (or_zero (ds_revenue s))))
                            (da_revenue e) stats\<rparr>"
  by (induction stats arbitrary: e) (simp_all add: absorb_device_def)

lemma Map_get_foldl_add_device:
  assumes "key = ''mobile'' \<or> key = ''desktop''"
  shows "Map_get (foldl add_device m stats) key =
     (case filter (\<lambda>s. device_label s = Some key) stats of
        [] \<Rightarrow> Map_get m key
      | s # rest \<Rightarrow>
          Some (foldl absorb_device
                  (case Map_get m key of None \<Rightarrow> empty_device_aggregate key | Some e \<Rightarrow> e)
                  (s # rest)))"
proof (induction stats arbitrary: m)
  case Nil
  then show ?case by simp
next
  case (Cons x xs)
  show ?case
  proof (cases "device_label x = Some key")
    case True
    with assms show ?thesis
      by (simp add: Cons.IH Map_get_add_device split: list.splits)
  next
    case False
    with assms show ?thesis
      by (simp add: Cons.IH Map_get_add_device split: list.splits)
  qed
qed

lemma Map_get_foldl_add_device_other:
  assumes "key \<noteq> ''mobile''" "key \<noteq> ''desktop''"
  shows "Map_get (foldl add_device m stats) key = Map_get m key"
  using assms by (induction stats arbitrary: m) (simp_all add: Map_get_add_device)

lemma device_totals_all_stats:
  "aggregateDevicePerformance campaigns = foldl add_device [] (all_device_stats campaigns)"
proof -
  have "foldl (\<lambda>totals campaign. foldl add_device totals (or_empty (device_performance campaign)))
          m campaigns = foldl add_device m (all_device_stats campaigns)" for m
    by (induction campaigns arbitrary: m) (simp_all add: all_device_stats_def)
  then show ?thesis by (simp add: aggregateDevicePerformance_def)
qed

lemma Map_get_device_totals:
  "Map_get (aggregateDevicePerformance campaigns) key =
     (if key = ''mobile'' \<or> key = ''desktop''
      then device_bucket key (all_device_stats campaigns) else None)"
proof (cases "key = ''mobile'' \<or> key = ''desktop''")
  case True
  then show ?thesis
    by (simp add: device_totals_all_stats Map_get_foldl_add_device device_bucket_def
        foldl_absorb_device empty_device_aggregate_def device_sum_def Map_get_empty
        absorb_device_def split: list.splits)
next
  case False
  then show ?thesis
    by (simp add: device_totals_all_stats Map_get_foldl_add_device_other Map_get_empty)
qed

text \<open>
  C5. For every campaign list, the totals of \<open>aggregateDevicePerformance\<close> have a bucket
  for mobile (desktop) exactly when some device record has a label that, lowercased, is
  mobile (desktop), and the bucket holds the sums of the five metrics of those records,
  each metric as it is, with no share applied (an absent or non-finite one counts as 0, a
  finite one is added unchanged). No other key has a bucket: a record with any other
  label, or none, adds to nothing. The second part says the same of a single record added
  to any totals, and that the enriched output has exactly the keys mobile and desktop, a
  bucket the totals lack having all metrics 0 and no return on ad spend.
\<close>

theorem device_filter_and_zero_default:
  "((\<forall>k. Map_get (aggregateDevicePerformance campaigns) k =
          (if k = ''mobile'' \<or> k = ''desktop''
           then device_bucket k (all_device_stats campaigns) else None))
   \<and> (device stat = None \<longrightarrow> device_label stat = None)
   \<and> (\<forall>d. device stat = Some d \<longrightarrow> device_label stat = Some (toLowerCase d)))
   \<and> ((map_option toLowerCase (device stat) \<noteq> Some ''mobile'' \<and>
    map_option toLowerCase (device stat) \<noteq> Some ''desktop'' \<longrightarrow> add_device m stat = m)
   \<and> (map_option toLowerCase (device stat) = Some key \<and> (key = ''mobile'' \<or> key = ''desktop'') \<longrightarrow>
        (\<exists>existing.
           existing = (case Map_get m key of None \<Rightarrow> empty_device_aggregate key | Some e \<Rightarrow> e) \<and>
           Map_get (add_device m stat) key =
             Some (existing
                   \<lparr>da_impressions := js_add (da_impressions existing) (finite_or_zero (or_zero (ds_impressions stat))),
                    da_clicks := js_add (da_clicks existing) (finite_or_zero (or_zero (ds_clicks stat))),
                    da_conversions := js_add (da_conversions existing) (finite_or_zero (or_zero (ds_conversions stat))),
                    da_spend := js_add (da_spend existing) (finite_or_zero (or_zero (ds_spend stat))),
                    da_revenue := js_add (da_revenue existing) (finite_or_zero (or_zero (ds_revenue stat)))\<rparr>))
        \<and> (\<forall>k. k \<noteq> key \<longrightarrow> Map_get (add_device m stat) k = Map_get m k))
   \<and> (\<forall>x. finite_or_zero (or_zero (Some (Fin x))) = Fin x)
   \<and> set (Map_keys (aggregateDevicePerformance campaigns)) \<subseteq> {''mobile'', ''desktop''}
   \<and> Map_keys (enrichMetrics m) = [''mobile'', ''desktop'']
   \<and> (Map_get m key = None \<and> (key = ''mobile'' \<or> key = ''desktop'') \<longrightarrow>
        Map_get (enrichMetrics m) key =
          Some \<lparr>da_device = map_of DEVICE_LABELS key, da_impressions = Fin 0, da_clicks = Fin 0,
                da_conversions = Fin 0, da_spend = Fin 0, da_revenue = Fin 0,
                ctr = Fin 0, conversionRate = Fin 0, roas = None, trafficShare = Fin 0\<rparr>))"
proof -
  have new: "(\<forall>k. Map_get (aggregateDevicePerformance campaigns) k =
          (if k = ''mobile'' \<or> k = ''desktop''
           then device_bucket k (all_device_stats campaigns) else None))
   \<and> (device stat = None \<longrightarrow> device_label stat = None)
   \<and> (\<forall>d. device stat = Some d \<longrightarrow> device_label stat = Some (toLowerCase d))"
    by (simp add: Map_get_device_totals device_label_def)
  have old: "(map_option toLowerCase (device stat) \<noteq> Some ''mobile'' \<and>
    map_option toLowerCase (device stat) \<noteq> Some ''desktop'' \<longrightarrow> add_device m stat = m)
   \<and> (map_option toLowerCase (device stat) = Some key \<and> (key = ''mobile'' \<or> key = ''desktop'') \<longrightarrow>
        (\<exists>existing.
           existing = (case Map_get m key of None \<Rightarrow> empty_device_aggregate key | Some e \<Rightarrow> e) \<and>
           Map_get (add_device m stat) key =
             Some (existing
                   \<lparr>da_impressions := js_add (da_impressions existing) (finite_or_zero (or_zero (ds_impressions stat))),
                    da_clicks := js_add (da_clicks existing) (finite_or_zero (or_zero (ds_clicks stat))),
                    da_conversions := js_add (da_conversions existing) (finite_or_zero (or_zero (ds_conversions stat))),
                    da_spend := js_add (da_spend existing) (finite_or_zero (or_zero (ds_spend stat))),
                    da_revenue := js_add (da_revenue existing) (finite_or_zero (or_zero (ds_revenue stat)))\<rparr>))
        \<and> (\<forall>k. k \<noteq> key \<longrightarrow> Map_get (add_device m stat) k = Map_get m k))
   \<and> (\<forall>x. finite_or_zero (or_zero (Some (Fin x))) = Fin x)
   \<and> set (Map_keys (aggregateDevicePerformance campaigns)) \<subseteq> {''mobile'', ''desktop''}
   \<and> Map_keys (enrichMetrics m) = [''mobile'', ''desktop'']
   \<and> (Map_get m key = None \<and> (key = ''mobile'' \<or> key = ''desktop'') \<longrightarrow>
        Map_get (enrichMetrics m) key =
          Some \<lparr>da_device = map_of DEVICE_LABELS key, da_impressions = Fin 0, da_clicks = Fin 0,
                da_conversions = Fin 0, da_spend = Fin 0, da_revenue = Fin 0,
                ctr = Fin 0, conversionRate = Fin 0, roas = None, trafficShare = Fin 0\<rparr>)"
    by (rule add_device_effect)
  show ?thesis
    by (rule conjI [OF new old])
qed

theorem device_filter_and_zero_default_witness:
  "(add_device [] (device_stat (Some ''tablet'') 10 2 1 5 7) = []
   \<and> Map_get (add_device [] (device_stat (Some ''Mobile'') 1000 50 5 100 250)) ''mobile'' =
       Some (device_aggregate ''Mobile'' 1000 50 5 100 250)
   \<and> Map_get (enrichMetrics [(''mobile'', device_aggregate ''Mobile'' 1000 50 5 100 250)]) ''desktop'' =
       Some \<lparr>da_device = Some ''Desktop'', da_impressions = Fin 0, da_clicks = Fin 0,
             da_conversions = Fin 0, da_spend = Fin 0, da_revenue = Fin 0,
             ctr = Fin 0, conversionRate = Fin 0, roas = None, trafficShare = Fin 0\<rparr>)
   \<and> (Map_get (aggregateDevicePerformance
       [device_campaign [device_stat (Some ''tablet'') 10 2 1 5 7,
                          device_stat (Some ''Mobile'') 1000 50 5 100 250],
        device_campaign [device_stat (Some ''MOBILE'') 500 10 1 50 80]]) ''mobile'' = Some (device_aggregate ''Mobile'' 1500 60 6 150 330)
   \<and> Map_get (aggregateDevicePerformance
       [device_campaign [device_stat (Some ''tablet'') 10 2 1 5 7,
                          device_stat (Some ''Mobile'') 1000 50 5 100 250],
        device_campaign [device_stat (Some ''MOBILE'') 500 10 1 50 80]]) ''tablet'' = None
   \<and> Map_get (aggregateDevicePerformance
       [device_campaign [device_stat (Some ''tablet'') 10 2 1 5 7,
                          device_stat (Some ''Mobile'') 1000 50 5 100 250],
        device_campaign [device_stat (Some ''MOBILE'') 500 10 1 50 80]]) ''desktop'' = None
   \<and> Map_get (enrichMetrics (aggregateDevicePerformance
       [device_campaign [device_stat (Some ''tablet'') 10 2 1 5 7,
                          device_stat (Some ''Mobile'') 1000 50 5 100 250],
        device_campaign [device_stat (Some ''MOBILE'') 500 10 1 50 80]])) ''desktop'' =
       Some \<lparr>da_device = Some ''Desktop'', da_impressions = Fin 0, da_clicks = Fin 0,
             da_conversions = Fin 0, da_spend = Fin 0, da_revenue = Fin 0,
             ctr = Fin 0, conversionRate = Fin 0, roas = None, trafficShare = Fin 0\<rparr>)"
proof -
  let ?E = "[device_campaign [device_stat (Some ''tablet'') 10 2 1 5 7,
                          device_stat (Some ''Mobile'') 1000 50 5 100 250],
        device_campaign [device_stat (Some ''MOBILE'') 500 10 1 50 80]]"
  have old: "add_device [] (device_stat (Some ''tablet'') 10 2 1 5 7) = []
   \<and> Map_get (add_device [] (device_stat (Some ''Mobile'') 1000 50 5 100 250)) ''mobile'' =
       Some (device_aggregate ''Mobile'' 1000 50 5 100 250)
   \<and> Map_get (enrichMetrics [(''mobile'', device_aggregate ''Mobile'' 1000 50 5 100 250)]) ''desktop'' =
       Some \<lparr>da_device = Some ''Desktop'', da_impressions = Fin 0, da_clicks = Fin 0,
             da_conversions = Fin 0, da_spend = Fin 0, da_revenue = Fin 0,
             ctr = Fin 0, conversionRate = Fin 0, roas = None, trafficShare = Fin 0\<rparr>"
  proof -
    have h1: "map_option toLowerCase (device (device_stat (Some ''tablet'') 10 2 1 5 7)) \<noteq> Some ''mobile''
        \<and> map_option toLowerCase (device (device_stat (Some ''tablet'') 10 2 1 5 7)) \<noteq> Some ''desktop''"
      by code_simp
    have h2: "map_option toLowerCase (device (device_stat (Some ''Mobile'') 1000 50 5 100 250)) = Some ''mobile''"
      by code_simp
    have h3: "Map_get [(''mobile'', device_aggregate ''Mobile'' 1000 50 5 100 250)] ''desktop'' = None"
      by (simp add: Map_get_def)
    have e2: "(case Map_get [] ''mobile'' of None \<Rightarrow> empty_device_aggregate ''mobile'' | Some e \<Rightarrow> e)
          \<lparr>da_impressions := js_add (da_impressions (case Map_get [] ''mobile'' of None \<Rightarrow> empty_device_aggregate ''mobile'' | Some e \<Rightarrow> e))
              (finite_or_zero (or_zero (ds_impressions (device_stat (Some ''Mobile'') 1000 50 5 100 250)))),
           da_clicks := js_add (da_clicks (case Map_get [] ''mobile'' of None \<Rightarrow> empty_device_aggregate ''mobile'' | Some e \<Rightarrow> e))
              (finite_or_zero (or_zero (ds_clicks (device_stat (Some ''Mobile'') 1000 50 5 100 250)))),
           da_conversions := js_add (da_conversions (case Map_get [] ''mobile'' of None \<Rightarrow> empty_device_aggregate ''mobile'' | Some e \<Rightarrow> e))
              (finite_or_zero (or_zero (ds_conversions (device_stat (Some ''Mobile'') 1000 50 5 100 250)))),
           da_spend := js_add (da_spend (case Map_get [] ''mobile'' of None \<Rightarrow> empty_device_aggregate ''mobile'' | Some e \<Rightarrow> e))
              (finite_or_zero (or_zero (ds_spend (device_stat (Some ''Mobile'') 1000 50 5 100 250)))),
           da_revenue := js_add (da_revenue (case Map_get [] ''mobile'' of None \<Rightarrow> empty_device_aggregate ''mobile'' | Some e \<Rightarrow> e))
              (finite_or_zero (or_zero (ds_revenue (device_stat (Some ''Mobile'') 1000 50 5 100 250))))\<rparr>
         = device_aggregate ''Mobile'' 1000 50 5 100 250"
      by (simp add: Map_get_def empty_device_aggregate_def DEVICE_LABELS_def device_stat_def
          device_aggregate_def finite_or_zero_def or_zero_def)
    have e3: "map_of DEVICE_LABELS ''desktop'' = Some ''Desktop''"
      by (simp add: DEVICE_LABELS_def)
    from h1 device_filter_and_zero_default [where stat = "device_stat (Some ''tablet'') 10 2 1 5 7" and m = "[]", THEN conjunct2]
    have w1: "add_device [] (device_stat (Some ''tablet'') 10 2 1 5 7) = []"
      by blast
    from h2 device_filter_and_zero_default [where stat = "device_stat (Some ''Mobile'') 1000 50 5 100 250" and m = "[]"
        and key = "''mobile''", THEN conjunct2]
    have w2: "Map_get (add_device [] (device_stat (Some ''Mobile'') 1000 50 5 100 250)) ''mobile'' =
         Some (device_aggregate ''Mobile'' 1000 50 5 100 250)"
      by (simp add: e2)
    from h3 device_filter_and_zero_default [where m = "[(''mobile'', device_aggregate ''Mobile'' 1000 50 5 100 250)]"
        and key = "''desktop''", THEN conjunct2]
    have w3: "Map_get (enrichMetrics [(''mobile'', device_aggregate ''Mobile'' 1000 50 5 100 250)]) ''desktop'' =
         Some \<lparr>da_device = Some ''Desktop'', da_impressions = Fin 0, da_clicks = Fin 0,
               da_conversions = Fin 0, da_spend = Fin 0, da_revenue = Fin 0,
               ctr = Fin 0, conversionRate = Fin 0, roas = None, trafficShare = Fin 0\<rparr>"
      by (simp add: e3)
    from w1 w2 w3 show ?thesis by simp
  qed
  have b1: "device_bucket ''mobile'' (all_device_stats ?E) =
      Some (device_aggregate ''Mobile'' 1500 60 6 150 330)"
    by code_simp
  have b2: "device_bucket ''desktop'' (all_device_stats ?E) = None"
    by code_simp
  have l: "map_of DEVICE_LABELS ''desktop'' = Some ''Desktop''"
    by (simp add: DEVICE_LABELS_def)
  note agg = device_filter_and_zero_default [where campaigns = ?E, THEN conjunct1, THEN conjunct1]
  have g1: "Map_get (aggregateDevicePerformance ?E) ''mobile'' =
      Some (device_aggregate ''Mobile'' 1500 60 6 150 330)"
    using agg [rule_format, of "''mobile''"] by (simp add: b1)
  have g2: "Map_get (aggregateDevicePerformance ?E) ''tablet'' = None"
    using agg [rule_format, of "''tablet''"] by simp
  have g3: "Map_get (aggregateDevicePerformance ?E) ''desktop'' = None"
    using agg [rule_format, of "''desktop''"] by (simp add: b2)
  from g3 device_filter_and_zero_default [where m = "aggregateDevicePerformance ?E" and key = "''desktop''", THEN conjunct2]
  have g4: "Map_get (enrichMetrics (aggregateDevicePerformance ?E)) ''desktop'' =
       Some \<lparr>da_device = Some ''Desktop'', da_impressions = Fin 0, da_clicks = Fin 0,
             da_conversions = Fin 0, da_spend = Fin 0, da_revenue = Fin 0,
             ctr = Fin 0, conversionRate = Fin 0, roas = None, trafficShare = Fin 0\<rparr>"
    by (simp add: l)
  have new: "Map_get (aggregateDevicePerformance
       [device_campaign [device_stat (Some ''tablet'') 10 2 1 5 7,
                          device_stat (Some ''Mobile'') 1000 50 5 100 250],
        device_campaign [device_stat (Some ''MOBILE'') 500 10 1 50 80]]) ''mobile'' = Some (device_aggregate ''Mobile'' 1500 60 6 150 330)
   \<and> Map_get (aggregateDevicePerformance
       [device_campaign [device_stat (Some ''tablet'') 10 2 1 5 7,
                          device_stat (Some ''Mobile'') 1000 50 5 100 250],
        device_campaign [device_stat (Some ''MOBILE'') 500 10 1 50 80]]) ''tablet'' = None
   \<and> Map_get (aggregateDevicePerformance
       [device_campaign [device_stat (Some ''tablet'') 10 2 1 5 7,
                          device_stat (Some ''Mobile'') 1000 50 5 100 250],
        device_campaign [device_stat (Some ''MOBILE'') 500 10 1 50 80]]) ''desktop'' = None
   \<and> Map_get (enrichMetrics (aggregateDevicePerformance
       [device_campaign [device_stat (Some ''tablet'') 10 2 1 5 7,
                          device_stat (Some ''Mobile'') 1000 50 5 100 250],
        device_campaign [device_stat (Some ''MOBILE'') 500 10 1 50 80]])) ''desktop'' =
       Some \<lparr>da_device = Some ''Desktop'', da_impressions = Fin 0, da_clicks = Fin 0,
             da_conversions = Fin 0, da_spend = Fin 0, da_revenue = Fin 0,
             ctr = Fin 0, conversionRate = Fin 0, roas = None, trafficShare = Fin 0\<rparr>"
    using g1 g2 g3 g4 by simp
  show ?thesis
    by (rule conjI [OF old new])
qed

section \<open>Device aggregates are finite\<close>

text \<open>
  A denominator that is not above 0 gives 0 (no value, for the return on ad spend). That
  covers NaN, which is neither above 0 nor at most 0. The device aggregator adds finite
  numbers only; in this model, where a sum of finite numbers is finite (a sum of doubles
  can overflow to an infinity, which is above or below 0, never NaN), every metric of a
  device aggregate is at most 0 or above 0.
\<close>

lemma not_positive_denominator:
  "(\<not> js_gt (da_impressions a) (Fin 0) \<longrightarrow> ctr (enrich_one tc a) = Fin 0)
   \<and> (\<not> js_gt (da_clicks a) (Fin 0) \<longrightarrow> conversionRate (enrich_one tc a) = Fin 0)
   \<and> (\<not> js_gt tc (Fin 0) \<longrightarrow> trafficShare (enrich_one tc a) = Fin 0)
   \<and> (\<not> js_gt (da_spend a) (Fin 0) \<longrightarrow> roas (enrich_one tc a) = None)
   \<and> \<not> js_gt NaN (Fin 0) \<and> \<not> js_le NaN (Fin 0)"
  by (simp add: enrich_one_def)

lemma finite_sum: "isFinite x \<Longrightarrow> isFinite (js_add x (finite_or_zero y))"
  by (cases x; cases y) (auto simp: finite_or_zero_def)

lemma finite_dichotomy: "isFinite x \<Longrightarrow> js_le x (Fin 0) \<or> js_gt x (Fin 0)"
  by (cases x) auto

lemma Map_values_Map_set: "set (Map_values (Map_set k v m)) \<subseteq> insert v (set (Map_values m))"
  by (induction m) (fastforce simp: Map_values_def split: if_splits)+

lemma Map_get_in_values: "Map_get m k = Some v \<Longrightarrow> v \<in> set (Map_values m)"
  by (auto simp: Map_get_def Map_values_def dest: map_of_SomeD intro: rev_image_eqI)

lemma add_device_finite:
  assumes "\<forall>a \<in> set (Map_values m). finite_aggregate a"
  shows "\<forall>a \<in> set (Map_values (add_device m stat)). finite_aggregate a"
proof (cases "map_option toLowerCase (device stat) = Some ''mobile'' \<or>
              map_option toLowerCase (device stat) = Some ''desktop''")
  case True
  then obtain key where k: "map_option toLowerCase (device stat) = Some key"
      "key = ''mobile'' \<or> key = ''desktop''" by blast
  let ?e = "case Map_get m key of None \<Rightarrow> empty_device_aggregate key | Some e \<Rightarrow> e"
  have "finite_aggregate ?e"
    using assms Map_get_in_values [of m key]
    by (auto simp: finite_aggregate_def empty_device_aggregate_def split: option.splits)
  then have "finite_aggregate
      (?e\<lparr>da_impressions := js_add (da_impressions ?e) (finite_or_zero (or_zero (ds_impressions stat))),
          da_clicks := js_add (da_clicks ?e) (finite_or_zero (or_zero (ds_clicks stat))),
          da_conversions := js_add (da_conversions ?e) (finite_or_zero (or_zero (ds_conversions stat))),
          da_spend := js_add (da_spend ?e) (finite_or_zero (or_zero (ds_spend stat))),
          da_revenue := js_add (da_revenue ?e) (finite_or_zero (or_zero (ds_revenue stat)))\<rparr>)"
    by (simp add: finite_aggregate_def finite_sum)
  with assms show ?thesis
    unfolding add_device_match [OF k]
    using Map_values_Map_set [of key _ m] by blast
next
  case False
  then have "add_device m stat = m" using add_device_other [of stat m] by blast
  with assms show ?thesis by simp
qed

lemma device_aggregates_are_finite:
  "\<forall>a \<in> set (Map_values (aggregateDevicePerformance campaigns)). finite_aggregate a"
proof -
  have inner: "\<forall>a \<in> set (Map_values (foldl add_device m stats)). finite_aggregate a"
    if "\<forall>a \<in> set (Map_values m). finite_aggregate a" for m stats
    using that
  proof (induction stats arbitrary: m)
    case Nil
    then show ?case by simp
  next
    case (Cons stat stats)
    from Cons.IH [OF add_device_finite [OF Cons.prems]] show ?case by simp
  qed
  have "\<forall>a \<in> set (Map_values (foldl (\<lambda>totals campaign.
            foldl add_device totals (or_empty (device_performance campaign))) m campaigns)).
          finite_aggregate a"
    if "\<forall>a \<in> set (Map_values m). finite_aggregate a" for m
    using that
  proof (induction campaigns arbitrary: m)
    case Nil
    then show ?case by simp
  next
    case (Cons c cs)
    from Cons.IH [OF inner [OF Cons.prems]] show ?case by simp
  qed
  from this [of "[]"] show ?thesis
    by (simp add: aggregateDevicePerformance_def Map_values_def)
qed

section \<open>The fetch\<close>

text \<open>
  C9. A response with a success status whose body is not JSON: the promise of
  \<open>response.json()\<close> rejects after the \<open>try\<close> block has returned it, the \<open>catch\<close> does not
  run, and the promise of \<open>fetchMarketingData\<close> rejects with the SyntaxError. The failure
  reaches the caller instead of becoming \<open>null\<close>.
\<close>

theorem fetch_parse_failure_is_not_caught: "fetchMarketingData (Response True Malformed) = Rejected SyntaxError"
  by (simp add: fetchMarketingData_def)

text \<open>
  The other outcomes are as the claim says: no response and a non-success status give
  \<open>null\<close>, a success status with a JSON body gives the parsed body.
\<close>

lemma fetch_failures_that_are_caught:
  "fetchMarketingData NetworkFailure = Fulfilled None
   \<and> fetchMarketingData (Response False b) = Fulfilled None
   \<and> fetchMarketingData (Response True (Json d)) = Fulfilled (Some d)"
  by (simp add: fetchMarketingData_def)

section \<open>The partition of a campaign among its segments\<close>

lemma js_add_commute: "js_add x y = js_add y x"
  by (cases x; cases y) auto

lemma js_add_assoc: "js_add (js_add x y) z = js_add x (js_add y z)"
  by (cases x; cases y; cases z) auto

lemma js_add_zero: "js_add (Fin 0) x = x" "js_add x (Fin 0) = x"
  by (cases x; simp)+

lemma foldl_js_add:
  "foldl (\<lambda>sum t. js_add sum (f t)) z xs = js_add z (foldl (\<lambda>sum t. js_add sum (f t)) (Fin 0) xs)"
proof (induction xs arbitrary: z)
  case Nil
  then show ?case by (simp add: js_add_zero)
next
  case (Cons x xs)
  have "foldl (\<lambda>sum t. js_add sum (f t)) z (x # xs) =
        js_add (js_add z (f x)) (foldl (\<lambda>sum t. js_add sum (f t)) (Fin 0) xs)"
    using Cons.IH [of "js_add z (f x)"] by simp
  also have "\<dots> = js_add z (js_add (f x) (foldl (\<lambda>sum t. js_add sum (f t)) (Fin 0) xs))"
    by (simp add: js_add_assoc)
  also have "\<dots> = js_add z (foldl (\<lambda>sum t. js_add sum (f t)) (Fin 0) (x # xs))"
    using Cons.IH [of "f x"] by (simp add: js_add_zero)
  finally show ?case .
qed

lemma total_of_Cons: "total_of f ((k, v) # m) = js_add (f v) (total_of f m)"
  using foldl_js_add [of f "f v" "map snd m"] by (simp add: total_of_def Map_values_def js_add_zero)

lemma total_of_Map_set:
  assumes "f v = js_add (f (case Map_get m k of None \<Rightarrow> e | Some t \<Rightarrow> t)) x" and "f e = Fin 0"
  shows "total_of f (Map_set k v m) = js_add (total_of f m) x"
  using assms(1)
proof (induction m)
  case Nil
  with assms(2) show ?case
    by (simp add: total_of_Cons Map_get_def js_add_zero) (simp add: total_of_def Map_values_def js_add_zero)
next
  case (Cons p m)
  obtain k' v' where p: "p = (k', v')" by (cases p)
  show ?case
  proof (cases "k' = k")
    case True
    with Cons.prems p show ?thesis
      by (simp add: total_of_Cons Map_get_def js_add_assoc js_add_commute [of x])
  next
    case False
    with Cons.prems p have "f v = js_add (f (case Map_get m k of None \<Rightarrow> e | Some t \<Rightarrow> t)) x"
      by (simp add: Map_get_def)
    from Cons.IH [OF this] False p show ?thesis
      by (simp add: total_of_Cons js_add_assoc)
  qed
qed

lemma total_of_add_age_metrics:
  "total_of a_spend (add_age_metrics k s r i c v m) = js_add (total_of a_spend m) s"
  "total_of a_revenue (add_age_metrics k s r i c v m) = js_add (total_of a_revenue m) r"
  unfolding add_age_metrics_def Let_def
  by (rule total_of_Map_set [where e = createEmptyAgeMetrics]; simp add: createEmptyAgeMetrics_def split: option.splits)+

lemma allocated_add_segment:
  "allocated_spend (add_segment S R tp n st seg) =
     js_add (allocated_spend st) (js_mul S (share_of tp n seg))"
  "allocated_revenue (add_segment S R tp n st seg) =
     js_add (allocated_revenue st) (js_mul R (share_of tp n seg))"
  using total_of_add_age_metrics
  by (simp_all add: allocated_spend_def allocated_revenue_def ageTotals_add_segment
      flip: total_of_def)

lemma allocated_foldl_add_segment:
  "allocated_spend (foldl (add_segment S R tp n) st segs) =
     js_add (allocated_spend st)
       (foldl (\<lambda>sum seg. js_add sum (js_mul S (share_of tp n seg))) (Fin 0) segs)"
  "allocated_revenue (foldl (add_segment S R tp n) st segs) =
     js_add (allocated_revenue st)
       (foldl (\<lambda>sum seg. js_add sum (js_mul R (share_of tp n seg))) (Fin 0) segs)"
proof (induction segs arbitrary: st)
  case Nil
  { case 1 show ?case by (simp add: js_add_zero) }
  { case 2 show ?case by (simp add: js_add_zero) }
next
  case (Cons seg segs)
  { case 1
    show ?case
      using foldl_js_add [of "\<lambda>seg. js_mul S (share_of tp n seg)" "js_mul S (share_of tp n seg)" segs]
      by (simp add: Cons.IH(1) allocated_add_segment js_add_assoc js_add_zero) }
  { case 2
    show ?case
      using foldl_js_add [of "\<lambda>seg. js_mul R (share_of tp n seg)" "js_mul R (share_of tp n seg)" segs]
      by (simp add: Cons.IH(2) allocated_add_segment js_add_assoc js_add_zero) }
qed

lemma foldl_Fin:
  "\<forall>x \<in> set xs. g x = Fin (h x) \<Longrightarrow>
   foldl (\<lambda>sum x. js_add sum (g x)) (Fin z) xs = Fin (z + sum_list (map h xs))"
  by (induction xs arbitrary: z) (simp_all add: add.assoc)

lemma sum_list_scaled:
  "sum_list (map (\<lambda>x. s * (h x / T)) xs) = (s::rat) * (sum_list (map h xs) / T)"
  by (induction xs) (simp_all add: algebra_simps add_divide_distrib)


lemma totalPercentage_finite:
  assumes "\<forall>seg \<in> set segs. \<exists>p. percentage_of_audience seg = Some (Fin p)"
  shows "totalPercentage_of segs = Fin (sum_list (map percentage_value segs))"
proof -
  have "\<forall>seg \<in> set segs. or_zero (percentage_of_audience seg) = Fin (percentage_value seg)"
    using assms by (auto simp: or_zero_def percentage_value_def)
  from foldl_Fin [OF this, of 0] show ?thesis
    by (simp add: totalPercentage_of_def)
qed

lemma shares_sum_uniform:
  assumes "segs \<noteq> []"
    and "(\<forall>seg \<in> set segs. percentage_of_audience seg = None) \<or> \<not> js_gt tp (Fin 0)"
  shows "foldl (\<lambda>sum seg. js_add sum (js_mul (Fin s) (share_of tp (length segs) seg))) (Fin 0) segs
         = Fin s"
proof -
  have n: "(of_nat (length segs) :: rat) \<noteq> 0"
    using assms(1) by simp
  have "\<forall>seg \<in> set segs.
          js_mul (Fin s) (share_of tp (length segs) seg) = Fin (s * (1 / of_nat (length segs)))"
    using assms(2) n by (auto simp: share_of_def split: option.splits)
  from foldl_Fin [OF this, of 0]
  have "foldl (\<lambda>sum seg. js_add sum (js_mul (Fin s) (share_of tp (length segs) seg))) (Fin 0) segs
        = Fin (sum_list (map (\<lambda>seg. s * (1 / of_nat (length segs))) segs))"
    by simp
  also have "sum_list (map (\<lambda>seg. s * (1 / of_nat (length segs))) segs) = s"
    using n by (simp add: sum_list_triv)
  finally show ?thesis .
qed

lemma shares_sum_percentages:
  assumes "\<forall>seg \<in> set segs. \<exists>p. percentage_of_audience seg = Some (Fin p)"
    and "js_gt (totalPercentage_of segs) (Fin 0)"
  shows "foldl (\<lambda>sum seg. js_add sum
            (js_mul (Fin s) (share_of (totalPercentage_of segs) (length segs) seg))) (Fin 0) segs
         = Fin s"
proof -
  let ?T = "sum_list (map percentage_value segs)"
  have tp: "totalPercentage_of segs = Fin ?T"
    using assms(1) by (rule totalPercentage_finite)
  with assms(2) have pos: "0 < ?T" by simp
  have "\<forall>seg \<in> set segs.
          js_mul (Fin s) (share_of (totalPercentage_of segs) (length segs) seg)
            = Fin (s * (percentage_value seg / ?T))"
    using assms(1) pos by (auto simp: tp share_of_def percentage_value_def)
  from foldl_Fin [OF this, of 0]
  have "foldl (\<lambda>sum seg. js_add sum
            (js_mul (Fin s) (share_of (totalPercentage_of segs) (length segs) seg))) (Fin 0) segs
        = Fin (sum_list (map (\<lambda>seg. s * (percentage_value seg / ?T)) segs))"
    by simp
  also have "sum_list (map (\<lambda>seg. s * (percentage_value seg / ?T)) segs) = s"
    by (subst sum_list_scaled) (use pos in simp)
  finally show ?thesis .
qed

lemma shares_sum:
  assumes "segs \<noteq> []"
    and "(\<forall>seg \<in> set segs. \<exists>p. percentage_of_audience seg = Some (Fin p))
         \<or> (\<forall>seg \<in> set segs. percentage_of_audience seg = None)
         \<or> \<not> js_gt (totalPercentage_of segs) (Fin 0)"
  shows "foldl (\<lambda>sum seg. js_add sum
            (js_mul (Fin s) (share_of (totalPercentage_of segs) (length segs) seg))) (Fin 0) segs
         = Fin s"
proof (cases "(\<forall>seg \<in> set segs. percentage_of_audience seg = None)
         \<or> \<not> js_gt (totalPercentage_of segs) (Fin 0)")
  case True
  with assms(1) show ?thesis by (rule shares_sum_uniform)
next
  case False
  with assms(2) show ?thesis by (intro shares_sum_percentages) auto
qed

text \<open>
  The invariant holds for a campaign with finite spend and revenue in which every segment
  has a finite percentage, or no segment has one, or the total percentage is not above 0
  (all shares are then uniform): the campaign adds exactly its spend and its revenue to
  what is allocated over the age groups.
\<close>

lemma partition_of_a_campaign:
  assumes "demographic_breakdown c = Some segs" and "segs \<noteq> []"
    and "or_zero (c_spend c) = Fin s" and "or_zero (c_revenue c) = Fin r"
    and "(\<forall>seg \<in> set segs. \<exists>p. percentage_of_audience seg = Some (Fin p))
         \<or> (\<forall>seg \<in> set segs. percentage_of_audience seg = None)
         \<or> \<not> js_gt (totalPercentage_of segs) (Fin 0)"
  shows "allocated_spend (add_campaign st c) = js_add (allocated_spend st) (Fin s)
         \<and> allocated_revenue (add_campaign st c) = js_add (allocated_revenue st) (Fin r)"
  using assms(1-4) shares_sum [OF assms(2) assms(5)]
  by (simp add: add_campaign_def or_empty_def allocated_foldl_add_segment)

text \<open>
  C1. A campaign with spend 100 and revenue 300 and two segments, the first with 60 percent
  of the audience, the second without a percentage. The total percentage is 60, so the
  first segment has the share 60 / 60 = 1 and the second, having no percentage, the
  uniform share 1 / 2: the age aggregator allocates a spend of 150 and a revenue of 450,
  one and a half times the totals of the campaign.
\<close>

theorem mixed_percentages_exceed_the_campaign_total: 
  "allocated_spend (aggregateCampaignMetrics
     [demographic_campaign (Some (Fin 100)) (Some (Fin 300))
        (Some [segment (Some ''male'') (Some ''18-24'') (Some (Fin 60)) 1000 50 5,
               segment (Some ''female'') (Some ''25-34'') None 800 40 2])]) = Fin 150
  \<and> allocated_revenue (aggregateCampaignMetrics
     [demographic_campaign (Some (Fin 100)) (Some (Fin 300))
        (Some [segment (Some ''male'') (Some ''18-24'') (Some (Fin 60)) 1000 50 5,
               segment (Some ''female'') (Some ''25-34'') None 800 40 2])]) = Fin 450"
  by code_simp

section \<open>Numeric coercion\<close>

text \<open>
  C2. The demographic aggregator reads its numbers with \<open>?? 0\<close> only. A spend of
  plus infinity, a revenue of minus infinity and an infinite impression count (what
  \<open>JSON.parse\<close> makes of 1e999 and -1e999) go into the totals as they are, where the
  device, region and week aggregators would add 0. The absent conversions do count as 0.
\<close>

theorem non_finite_demographic_values_are_not_coerced:
  "Map_get (ageTotals (aggregateCampaignMetrics
     [demographic_campaign (Some PInf) (Some NInf)
        (Some [\<lparr>age_group = Some ''18-24'', gender = Some ''male'', percentage_of_audience = None,
                performance = Some \<lparr>perf_impressions = Some PInf, perf_clicks = Some (Fin 50),
                                    perf_conversions = None\<rparr>\<rparr>])])) ''18-24''
    = Some \<lparr>a_spend = PInf, a_revenue = NInf, a_impressions = PInf, a_clicks = Fin 50,
            a_conversions = Fin 0\<rparr>"
  by code_simp

lemma coercion_to_zero:
  "finite_or_zero (or_zero None) = Fin 0
   \<and> finite_or_zero (or_zero (Some NaN)) = Fin 0
   \<and> finite_or_zero (or_zero (Some PInf)) = Fin 0
   \<and> finite_or_zero (or_zero (Some NInf)) = Fin 0
   \<and> finite_or_zero (or_zero (Some (Fin x))) = Fin x"
  by (simp add: finite_or_zero_def or_zero_def)

lemma coerce_zeroed: "finite_or_zero (or_zero (zeroed x)) = finite_or_zero (or_zero x)"
  by (cases x) (auto simp: zeroed_def finite_or_zero_def or_zero_def)

lemma add_device_coerces:
  "add_device m stat =
   add_device m (stat\<lparr>ds_impressions := zeroed (ds_impressions stat),
                      ds_clicks := zeroed (ds_clicks stat),
                      ds_conversions := zeroed (ds_conversions stat),
                      ds_spend := zeroed (ds_spend stat),
                      ds_revenue := zeroed (ds_revenue stat)\<rparr>)"
  by (simp add: add_device_def Let_def coerce_zeroed split: option.splits)

lemma add_region_coerces:
  "add_region st stat =
   add_region st (stat\<lparr>rs_spend := zeroed (rs_spend stat), rs_revenue := zeroed (rs_revenue stat)\<rparr>)"
  by (simp add: add_region_def Let_def coerce_zeroed split: option.splits sum.splits)

lemma add_week_coerces:
  "add_week m w = add_week m (w\<lparr>ws_spend := zeroed (ws_spend w), ws_revenue := zeroed (ws_revenue w)\<rparr>)"
  by (simp add: add_week_def Let_def week_key_def coerce_zeroed split: option.splits)

lemma add_campaign_missing_spend:
  "add_campaign st (c\<lparr>c_spend := None\<rparr>) = add_campaign st (c\<lparr>c_spend := Some (Fin 0)\<rparr>)
   \<and> add_campaign st (c\<lparr>c_revenue := None\<rparr>) = add_campaign st (c\<lparr>c_revenue := Some (Fin 0)\<rparr>)"
  by (simp add: add_campaign_def Let_def or_zero_def)

section \<open>Regions without coordinates\<close>

text \<open>
  C8. The region name Constructor normalises to constructor, which is no key of the
  coordinate table. The property read finds the inherited \<open>constructor\<close> of the table
  object, so the entry is not excluded: it is in the aggregate, with its spend and revenue
  and with latitude and longitude \<open>undefined\<close>.
\<close>

theorem inherited_property_name_is_not_excluded:
  "map_of REGION_COORDINATES ''constructor'' = None
   \<and> aggregateRegionalPerformance
       [region_campaign [region_stat ''Constructor'' ''Nowhere'' (Some (Fin 5)) (Some (Fin 7))]]
     = Inr [\<lparr>ra_region = Some ''Constructor'', ra_country = Some ''Nowhere'', latitude = None,
             longitude = None, ra_spend = Fin 5, ra_revenue = Fin 7\<rparr>]"
  by code_simp

text \<open>
  Atlantis is excluded and only recorded among the missing names; a known region is found
  whatever its case and surrounding blanks, and a non-finite revenue counts as 0.
\<close>

lemma unknown_region_example:
  "aggregateRegionalPerformance
       [region_campaign [region_stat ''Atlantis'' ''Nowhere'' (Some (Fin 5)) (Some (Fin 7)),
                         region_stat '' DUBAI '' ''UAE'' (Some (Fin 5)) (Some PInf),
                         region_stat ''Doha'' ''Qatar'' (Some (Fin 5)) (Some (Fin 7)),
                         region_stat ''dubai'' ''UAE'' None (Some (Fin 9))]]
     = Inr [\<lparr>ra_region = Some '' DUBAI '', ra_country = Some ''UAE'', latitude = Some (Fin (252048 / 10000)),
             longitude = Some (Fin (552708 / 10000)), ra_spend = Fin 5, ra_revenue = Fin 9\<rparr>,
            \<lparr>ra_region = Some ''Doha'', ra_country = Some ''Qatar'', latitude = Some (Fin (252854 / 10000)),
             longitude = Some (Fin (51531 / 1000)), ra_spend = Fin 5, ra_revenue = Fin 7\<rparr>]
   \<and> map_sum id st_missingRegions (region_loop
       [region_campaign [region_stat ''Atlantis'' ''Nowhere'' (Some (Fin 5)) (Some (Fin 7)),
                         region_stat '' DUBAI '' ''UAE'' (Some (Fin 5)) (Some PInf)]]) = Inr [Some ''Atlantis'']"
  by code_simp

lemma add_region_present:
  "region stat \<noteq> None \<Longrightarrow> \<exists>st'. add_region st stat = Inr st'"
  by (auto simp: add_region_def resolveCoordinates_def normalizeKey_def Let_def split: option.splits)

lemma forEach_total:
  "(\<And>s x. x \<in> set xs \<Longrightarrow> \<exists>s'. f s x = Inr s') \<Longrightarrow> \<exists>s'. forEach f s xs = Inr s'"
proof (induction xs arbitrary: s)
  case Nil
  then show ?case by simp
next
  case (Cons x xs)
  from Cons.prems [of x s] obtain s1 where "f s x = Inr s1" by auto
  moreover from Cons.IH [of s1] Cons.prems obtain s2 where "forEach f s1 xs = Inr s2" by auto
  ultimately show ?case by simp
qed

lemma region_aggregation_does_not_throw:
  assumes "\<forall>c \<in> set campaigns. \<forall>stat \<in> set (or_empty (regional_performance c)). region stat \<noteq> None"
  shows "\<exists>result. aggregateRegionalPerformance campaigns = Inr result"
proof -
  have inner: "\<exists>s'. forEach add_region s (or_empty (regional_performance c)) = Inr s'"
    if "c \<in> set campaigns" for c s
    using that assms by (intro forEach_total add_region_present) auto
  have "\<exists>st. region_loop campaigns = Inr st"
    unfolding region_loop_def by (rule forEach_total) (use inner in blast)
  then show ?thesis
    by (auto simp: aggregateRegionalPerformance_def)
qed

lemma unknown_region_is_excluded:
  assumes "region stat = Some r"
    and "map_of REGION_COORDINATES (toLowerCase (trim r)) = None"
    and "toLowerCase (trim r) \<notin> set Object_prototype_keys"
  shows "add_region st stat = Inr (st\<lparr>st_missingRegions := Set_add (Some r) (st_missingRegions st)\<rparr>)"
  using assms
  by (simp add: add_region_def resolveCoordinates_def normalizeKey_def get_property_def)

section \<open>Weekly buckets\<close>

lemma add_week_absorb:
  "add_week m w =
     Map_set (week_key w) (absorb (case Map_get m (week_key w) of Some e \<Rightarrow> e | None \<Rightarrow> fresh w) w) m"
  by (simp add: add_week_def Let_def absorb_def fresh_def split: option.splits)

lemma Map_get_add_week:
  "Map_get (add_week m w) k =
     (if k = week_key w
      then Some (absorb (case Map_get m (week_key w) of Some e \<Rightarrow> e | None \<Rightarrow> fresh w) w)
      else Map_get m k)"
  by (simp add: add_week_absorb Map_get_Map_set)

lemma weekly_totals_all_weeks: "weekly_totals campaigns = foldl add_week [] (all_weeks campaigns)"
proof -
  have "foldl (\<lambda>m campaign. foldl add_week m (or_empty (weekly_performance campaign))) m campaigns
        = foldl add_week m (all_weeks campaigns)" for m
    by (induction campaigns arbitrary: m) (simp_all add: all_weeks_def)
  then show ?thesis by (simp add: weekly_totals_def)
qed

lemma foldl_absorb:
  "foldl absorb e ws =
     e\<lparr>wa_spend := foldl (\<lambda>sum w. js_add sum (finite_or_zero (or_zero (ws_spend w)))) (wa_spend e) ws,
       wa_revenue := foldl (\<lambda>sum w. js_add sum (finite_or_zero (or_zero (ws_revenue w)))) (wa_revenue e) ws\<rparr>"
  by (induction ws arbitrary: e) (simp_all add: absorb_def)

lemma Map_get_foldl_add_week:
  "Map_get (foldl add_week m ws) k =
     (case filter (\<lambda>w. week_key w = k) ws of
        [] \<Rightarrow> Map_get m k
      | w # rest \<Rightarrow>
          Some (foldl absorb (case Map_get m k of Some e \<Rightarrow> e | None \<Rightarrow> fresh w) (w # rest)))"
proof (induction ws arbitrary: m)
  case Nil
  then show ?case by simp
next
  case (Cons x xs)
  show ?case
  proof (cases "week_key x = k")
    case True
    then show ?thesis
      by (simp add: Cons.IH Map_get_add_week split: list.splits)
  next
    case False
    then show ?thesis
      by (simp add: Cons.IH Map_get_add_week split: list.splits)
  qed
qed

lemma Map_get_weekly_totals: "Map_get (weekly_totals campaigns) k = bucket k (all_weeks campaigns)"
  by (simp add: weekly_totals_all_weeks Map_get_foldl_add_week bucket_def foldl_absorb fresh_def
      week_sum_def Map_get_empty absorb_def split: list.splits)

lemma keys_foldl_add_week:
  "distinct (Map_keys m) \<Longrightarrow>
   distinct (Map_keys (foldl add_week m ws)) \<and>
   set (Map_keys (foldl add_week m ws)) = set (Map_keys m) \<union> week_key ` set ws"
proof (induction ws arbitrary: m)
  case Nil
  then show ?case by simp
next
  case (Cons x xs)
  have d: "distinct (Map_keys (add_week m x))"
    using Cons.prems by (simp add: add_week_absorb Map_keys_Map_set)
  have s: "set (Map_keys (add_week m x)) = insert (week_key x) (set (Map_keys m))"
    by (auto simp: add_week_absorb Map_keys_Map_set)
  from Cons.IH [OF d] s show ?case by auto
qed

lemma keys_weekly_totals:
  "distinct (Map_keys (weekly_totals campaigns)) \<and>
   set (Map_keys (weekly_totals campaigns)) = week_key ` set (all_weeks campaigns)"
  using keys_foldl_add_week [of "[]" "all_weeks campaigns"]
  by (simp add: weekly_totals_all_weeks Map_keys_def)

lemma week_key_same: "week_start a = week_start b \<Longrightarrow> week_end a = week_end b \<Longrightarrow> week_key a = week_key b"
  by (simp add: week_key_def)

lemma append_sep_inj:
  "c \<notin> set xs \<Longrightarrow> c \<notin> set ys \<Longrightarrow> xs @ c # us = ys @ c # vs \<Longrightarrow> xs = ys \<and> us = vs"
proof (induction xs arbitrary: ys)
  case Nil
  then show ?case by (cases ys) auto
next
  case (Cons x xs)
  then show ?case by (cases ys) auto
qed

lemma week_key_inj:
  "CHR ''_'' \<notin> set (week_start a) \<Longrightarrow> CHR ''_'' \<notin> set (week_start b) \<Longrightarrow>
   week_key a = week_key b \<Longrightarrow> week_start a = week_start b \<and> week_end a = week_end b"
  using append_sep_inj [of "CHR ''_''" "week_start a" "week_start b" "week_end a" "week_end b"]
  by (simp add: week_key_def)

lemma mset_insert_by: "mset (insert_by cmp x xs) = add_mset x (mset xs)"
  by (induction xs) auto

lemma mset_Array_sort: "mset (Array_sort cmp xs) = mset xs"
  by (induction xs) (auto simp: Array_sort_def mset_insert_by)

lemma set_insert_by: "set (insert_by cmp x xs) = insert x (set xs)"
  using mset_insert_by [of cmp x xs] by (metis set_mset_add_mset_insert set_mset_mset)

lemma js_gt_sub: "isFinite u \<Longrightarrow> isFinite v \<Longrightarrow> js_gt (js_sub u v) (Fin 0) = (\<not> js_le u v)"
  by (cases u; cases v) (auto simp: js_sub_def)

lemma js_le_trans: "js_le u v \<Longrightarrow> js_le v w \<Longrightarrow> js_le u w"
  by (cases u; cases v; cases w) auto

lemma js_le_total: "isFinite u \<Longrightarrow> isFinite v \<Longrightarrow> \<not> js_le u v \<Longrightarrow> js_le v u"
  by (cases u; cases v) auto

lemma sorted_insert_by:
  assumes "\<forall>a \<in> set (x # ys). isFinite (t a)"
    and "sorted_wrt (\<lambda>a b. js_le (t a) (t b)) ys"
  shows "sorted_wrt (\<lambda>a b. js_le (t a) (t b)) (insert_by (\<lambda>a b. js_sub (t a) (t b)) x ys)"
  using assms
proof (induction ys)
  case Nil
  then show ?case by simp
next
  case (Cons y ys)
  show ?case
  proof (cases "js_le (t x) (t y)")
    case True
    then have "\<forall>z \<in> set ys. js_le (t x) (t z)"
      using Cons.prems(2) js_le_trans by fastforce
    with True Cons.prems show ?thesis
      by (simp add: js_gt_sub)
  next
    case False
    then have yx: "js_le (t y) (t x)"
      using Cons.prems(1) js_le_total by simp
    have "sorted_wrt (\<lambda>a b. js_le (t a) (t b)) (insert_by (\<lambda>a b. js_sub (t a) (t b)) x ys)"
      using Cons.IH Cons.prems by simp
    with False yx Cons.prems show ?thesis
      by (simp add: js_gt_sub set_insert_by)
  qed
qed

lemma sorted_Array_sort:
  "\<forall>a \<in> set xs. isFinite (t a) \<Longrightarrow>
   sorted_wrt (\<lambda>a b. js_le (t a) (t b)) (Array_sort (\<lambda>a b. js_sub (t a) (t b)) xs)"
proof (induction xs)
  case Nil
  then show ?case by (simp add: Array_sort_def)
next
  case (Cons x xs)
  have "set (Array_sort (\<lambda>a b. js_sub (t a) (t b)) xs) = set xs"
    using mset_Array_sort [of "\<lambda>a b. js_sub (t a) (t b)" xs] by (metis set_mset_mset)
  then have "\<forall>a \<in> set (x # Array_sort (\<lambda>a b. js_sub (t a) (t b)) xs). isFinite (t a)"
    using Cons.prems by simp
  from sorted_insert_by [OF this] Cons show ?case
    by (simp add: Array_sort_def)
qed

lemma weekStart_of_bucket:
  assumes "a \<in> set (Map_values (weekly_totals campaigns))"
  shows "\<exists>w \<in> set (all_weeks campaigns). weekStart a = week_start w"
proof -
  from assms obtain k where "(k, a) \<in> set (weekly_totals campaigns)"
    by (auto simp: Map_values_def)
  moreover have "distinct (map fst (weekly_totals campaigns))"
    using keys_weekly_totals [of campaigns] by (simp add: Map_keys_def)
  ultimately have "Map_get (weekly_totals campaigns) k = Some a"
    by (simp add: Map_get_def)
  then have "bucket k (all_weeks campaigns) = Some a"
    by (simp add: Map_get_weekly_totals)
  then obtain w rest where f: "filter (\<lambda>w. week_key w = k) (all_weeks campaigns) = w # rest"
    and "weekStart a = week_start w"
    by (auto simp: bucket_def split: list.splits)
  from f have "w \<in> set (filter (\<lambda>w. week_key w = k) (all_weeks campaigns))" by simp
  then have "w \<in> set (all_weeks campaigns)" by simp
  with \<open>weekStart a = week_start w\<close> show ?thesis by blast
qed

text \<open>
  A boundary with an underscore is no date string. With such boundaries two different
  pairs can have the same key: the entries (2024_01, 01) and (2024, 01_01) both have the
  key 2024_01_01 and share a bucket.
\<close>

lemma underscore_boundaries_share_a_key:
  "\<not> ((week_key (week_stat ''2024_01'' ''01'' 1 3) = week_key (week_stat ''2024'' ''01_01'' 2 4))
       = (week_start (week_stat ''2024_01'' ''01'' 1 3) = week_start (week_stat ''2024'' ''01_01'' 2 4)
          \<and> week_end (week_stat ''2024_01'' ''01'' 1 3) = week_end (week_stat ''2024'' ''01_01'' 2 4)))
   \<and> aggregateWeeklyPerformance example_getTime
        [week_campaign [week_stat ''2024_01'' ''01'' 1 3, week_stat ''2024'' ''01_01'' 2 4]]
      = [\<lparr>weekStart = ''2024_01'', weekEnd = ''01'', wa_spend = Fin 3, wa_revenue = Fin 7\<rparr>]"
  by code_simp

text \<open>
  The buckets by key: each key \<open>week_start_week_end\<close> has one bucket, with the boundaries
  of its first entry and the sums of its entries; the list returned consists of the
  buckets, in ascending order of the time value of \<open>weekStart\<close> when every \<open>week_start\<close>
  parses to a date.
\<close>

lemma weekly_buckets_by_key:
  "distinct (Map_keys (weekly_totals campaigns))
   \<and> (\<forall>k. Map_get (weekly_totals campaigns) k = bucket k (all_weeks campaigns))
   \<and> (week_start a = week_start b \<and> week_end a = week_end b \<longrightarrow> week_key a = week_key b)
   \<and> (CHR ''_'' \<notin> set (week_start a) \<and> CHR ''_'' \<notin> set (week_start b) \<and> week_key a = week_key b \<longrightarrow>
        week_start a = week_start b \<and> week_end a = week_end b)
   \<and> mset (aggregateWeeklyPerformance getTime campaigns) = mset (Map_values (weekly_totals campaigns))
   \<and> ((\<forall>w \<in> set (all_weeks campaigns). isFinite (getTime (week_start w))) \<longrightarrow>
        sorted_wrt (\<lambda>x y. js_le (getTime (weekStart x)) (getTime (weekStart y)))
          (aggregateWeeklyPerformance getTime campaigns))"
proof (intro conjI impI allI)
  show "distinct (Map_keys (weekly_totals campaigns))"
    using keys_weekly_totals by blast
  show "Map_get (weekly_totals campaigns) k = bucket k (all_weeks campaigns)" for k
    by (rule Map_get_weekly_totals)
  show "week_key a = week_key b" if "week_start a = week_start b \<and> week_end a = week_end b"
    using that by (simp add: week_key_def)
  show "week_start a = week_start b" "week_end a = week_end b"
    if "CHR ''_'' \<notin> set (week_start a) \<and> CHR ''_'' \<notin> set (week_start b) \<and> week_key a = week_key b"
    using that week_key_inj [of a b] by blast+
  show "mset (aggregateWeeklyPerformance getTime campaigns) = mset (Map_values (weekly_totals campaigns))"
    by (simp add: aggregateWeeklyPerformance_def mset_Array_sort)
  show "sorted_wrt (\<lambda>x y. js_le (getTime (weekStart x)) (getTime (weekStart y)))
          (aggregateWeeklyPerformance getTime campaigns)"
    if h: "\<forall>w \<in> set (all_weeks campaigns). isFinite (getTime (week_start w))"
  proof -
    have "\<forall>x \<in> set (Map_values (weekly_totals campaigns)). isFinite (getTime (weekStart x))"
      using weekStart_of_bucket h by fastforce
    from sorted_Array_sort [of _ "\<lambda>x. getTime (weekStart x)", OF this]
    show ?thesis by (simp add: aggregateWeeklyPerformance_def)
  qed
qed

lemma week_key_pair:
  assumes "CHR ''_'' \<notin> set (week_start w)" "CHR ''_'' \<notin> set s"
  shows "(week_key w = s @ ''_'' @ e) = (week_start w = s \<and> week_end w = e)"
  using append_sep_inj [of "CHR ''_''" "week_start w" s "week_end w" e] assms
  by (auto simp: week_key_def)

lemma bucket_pair_bucket:
  assumes "\<forall>w \<in> set ws. CHR ''_'' \<notin> set (week_start w)" "CHR ''_'' \<notin> set s"
  shows "bucket (s @ ''_'' @ e) ws = pair_bucket s e ws"
proof -
  have "filter (\<lambda>w. week_key w = s @ ''_'' @ e) ws =
        filter (\<lambda>w. week_start w = s \<and> week_end w = e) ws"
    using assms by (intro filter_cong refl week_key_pair) auto
  then have eq: "filter (\<lambda>w. week_key w = s @ ''_'' @ e) ws =
        filter (\<lambda>w. week_start w = s \<and> week_end w = e) ws" .
  show ?thesis
  proof (cases "filter (\<lambda>w. week_start w = s \<and> week_end w = e) ws")
    case Nil
    with eq show ?thesis by (simp add: bucket_def pair_bucket_def)
  next
    case (Cons w rest)
    then have "w \<in> set (filter (\<lambda>w. week_start w = s \<and> week_end w = e) ws)" by simp
    then have "week_start w = s \<and> week_end w = e" by simp
    with eq Cons show ?thesis by (simp add: bucket_def pair_bucket_def)
  qed
qed

lemma bucket_member:
  assumes "(k, a) \<in> set (weekly_totals campaigns)"
  shows "bucket k (all_weeks campaigns) = Some a"
proof -
  have "distinct (map fst (weekly_totals campaigns))"
    using keys_weekly_totals [of campaigns] by (simp add: Map_keys_def)
  with assms have "Map_get (weekly_totals campaigns) k = Some a"
    by (simp add: Map_get_def)
  then show ?thesis by (simp add: Map_get_weekly_totals)
qed

lemma bucket_first_entry:
  assumes "bucket k ws = Some a"
  shows "\<exists>w \<in> set ws. week_key w = k \<and> weekStart a = week_start w \<and> weekEnd a = week_end w"
proof -
  from assms obtain w rest where f: "filter (\<lambda>w. week_key w = k) ws = w # rest"
    and a: "weekStart a = week_start w" "weekEnd a = week_end w"
    by (auto simp: bucket_def split: list.splits)
  from f have "w \<in> set (filter (\<lambda>w. week_key w = k) ws)" by simp
  then have "w \<in> set ws" "week_key w = k" by simp_all
  with a show ?thesis by blast
qed

lemma key_of_aggregate:
  assumes "(k, a) \<in> set (weekly_totals campaigns)"
  shows "k = weekStart a @ ''_'' @ weekEnd a"
  using bucket_first_entry [OF bucket_member [OF assms]] by (auto simp: week_key_def)

lemma set_output:
  "set (aggregateWeeklyPerformance getTime campaigns) = snd ` set (weekly_totals campaigns)"
proof -
  have "mset (aggregateWeeklyPerformance getTime campaigns) = mset (Map_values (weekly_totals campaigns))"
    by (simp add: aggregateWeeklyPerformance_def mset_Array_sort)
  then have "set (aggregateWeeklyPerformance getTime campaigns) = set (Map_values (weekly_totals campaigns))"
    by (metis set_mset_mset)
  then show ?thesis by (simp add: Map_values_def)
qed

lemma output_pair_buckets:
  assumes H: "\<forall>w \<in> set (all_weeks campaigns). CHR ''_'' \<notin> set (week_start w)"
    and a: "a \<in> set (aggregateWeeklyPerformance getTime campaigns)"
  shows "pair_bucket (weekStart a) (weekEnd a) (all_weeks campaigns) = Some a"
proof -
  from a obtain k where k: "(k, a) \<in> set (weekly_totals campaigns)"
    by (auto simp: set_output)
  have b: "bucket k (all_weeks campaigns) = Some a" using k by (rule bucket_member)
  from bucket_first_entry [OF b] H have u: "CHR ''_'' \<notin> set (weekStart a)" by auto
  have "bucket (weekStart a @ ''_'' @ weekEnd a) (all_weeks campaigns) = Some a"
    using b key_of_aggregate [OF k] by simp
  then show ?thesis
    unfolding bucket_pair_bucket [OF H u] .
qed

lemma output_covers_entries:
  assumes H: "\<forall>w \<in> set (all_weeks campaigns). CHR ''_'' \<notin> set (week_start w)"
    and w: "w \<in> set (all_weeks campaigns)"
  shows "\<exists>a \<in> set (aggregateWeeklyPerformance getTime campaigns).
           weekStart a = week_start w \<and> weekEnd a = week_end w"
proof -
  have "week_key w \<in> set (Map_keys (weekly_totals campaigns))"
    using keys_weekly_totals [of campaigns] w by simp
  then obtain a where k: "(week_key w, a) \<in> set (weekly_totals campaigns)"
    by (auto simp: Map_keys_def)
  from bucket_first_entry [OF bucket_member [OF k]]
  obtain w' where w': "w' \<in> set (all_weeks campaigns)" "week_key w' = week_key w"
      "weekStart a = week_start w'" "weekEnd a = week_end w'" by blast
  from H w w' have "week_start w' = week_start w \<and> week_end w' = week_end w"
    by (intro week_key_inj) auto
  moreover from k have "a \<in> set (aggregateWeeklyPerformance getTime campaigns)"
    by (force simp: set_output)
  ultimately show ?thesis using w' by auto
qed

lemma output_pairs_distinct:
  "distinct (map (\<lambda>a. (weekStart a, weekEnd a)) (aggregateWeeklyPerformance getTime campaigns))"
proof -
  let ?key = "\<lambda>p :: string \<times> string. fst p @ ''_'' @ snd p"
  let ?pair = "\<lambda>a. (weekStart a, weekEnd a)"
  have e: "map (\<lambda>p. ?key (?pair (snd p))) (weekly_totals campaigns) = map fst (weekly_totals campaigns)"
    using key_of_aggregate [of _ _ campaigns] by (intro map_cong refl) auto
  have "distinct (map fst (weekly_totals campaigns))"
    using keys_weekly_totals [of campaigns] by (simp add: Map_keys_def)
  then have "distinct (map (\<lambda>p. ?key (?pair (snd p))) (weekly_totals campaigns))"
    by (simp only: e)
  moreover have "map ?key (map ?pair (Map_values (weekly_totals campaigns))) =
      map (\<lambda>p. ?key (?pair (snd p))) (weekly_totals campaigns)"
    by (simp add: Map_values_def comp_def)
  ultimately have "distinct (map ?key (map ?pair (Map_values (weekly_totals campaigns))))"
    by (simp only:)
  then have d: "distinct (map ?pair (Map_values (weekly_totals campaigns)))"
    using distinct_map [of ?key "map ?pair (Map_values (weekly_totals campaigns))"] by blast
  have "mset (map ?pair (aggregateWeeklyPerformance getTime campaigns)) =
        mset (map ?pair (Map_values (weekly_totals campaigns)))"
    by (simp add: aggregateWeeklyPerformance_def mset_Array_sort)
  with d show ?thesis
    by (metis mset_eq_imp_distinct_iff)
qed

text \<open>
  C7. The week boundaries are date strings, which have no underscore. For every campaign
  list whose \<open>week_start\<close> strings have none, the list returned by
  \<open>aggregateWeeklyPerformance\<close> has exactly one aggregate for each pair
  (week_start, week_end) that occurs in the feed, and the aggregate holds the sums of spend
  and revenue over the entries with that very pair: two entries are merged if and only if
  their pairs are the same strings, so the same week written in two formats gives two
  aggregates. No two aggregates of the list have the same pair. When every \<open>week_start\<close>
  parses to a date, the list is in ascending order of the parsed date. The second part
  describes the buckets by their keys, for every feed.
\<close>

theorem weekly_buckets_by_key_and_sorted:
  "(((\<forall>w \<in> set (all_weeks campaigns). CHR ''_'' \<notin> set (week_start w)) \<longrightarrow>
      (\<forall>x \<in> set (aggregateWeeklyPerformance getTime campaigns).
          pair_bucket (weekStart x) (weekEnd x) (all_weeks campaigns) = Some x)
      \<and> (\<forall>w \<in> set (all_weeks campaigns).
            \<exists>x \<in> set (aggregateWeeklyPerformance getTime campaigns).
              weekStart x = week_start w \<and> weekEnd x = week_end w))
   \<and> distinct (map (\<lambda>x. (weekStart x, weekEnd x)) (aggregateWeeklyPerformance getTime campaigns)))
   \<and> (distinct (Map_keys (weekly_totals campaigns))
   \<and> (\<forall>k. Map_get (weekly_totals campaigns) k = bucket k (all_weeks campaigns))
   \<and> (week_start a = week_start b \<and> week_end a = week_end b \<longrightarrow> week_key a = week_key b)
   \<and> (CHR ''_'' \<notin> set (week_start a) \<and> CHR ''_'' \<notin> set (week_start b) \<and> week_key a = week_key b \<longrightarrow>
        week_start a = week_start b \<and> week_end a = week_end b)
   \<and> mset (aggregateWeeklyPerformance getTime campaigns) = mset (Map_values (weekly_totals campaigns))
   \<and> ((\<forall>w \<in> set (all_weeks campaigns). isFinite (getTime (week_start w))) \<longrightarrow>
        sorted_wrt (\<lambda>x y. js_le (getTime (weekStart x)) (getTime (weekStart y)))
          (aggregateWeeklyPerformance getTime campaigns)))"
proof -
  have new: "((\<forall>w \<in> set (all_weeks campaigns). CHR ''_'' \<notin> set (week_start w)) \<longrightarrow>
      (\<forall>x \<in> set (aggregateWeeklyPerformance getTime campaigns).
          pair_bucket (weekStart x) (weekEnd x) (all_weeks campaigns) = Some x)
      \<and> (\<forall>w \<in> set (all_weeks campaigns).
            \<exists>x \<in> set (aggregateWeeklyPerformance getTime campaigns).
              weekStart x = week_start w \<and> weekEnd x = week_end w))
   \<and> distinct (map (\<lambda>x. (weekStart x, weekEnd x)) (aggregateWeeklyPerformance getTime campaigns))"
  proof (intro conjI impI ballI)
    fix x
    assume "\<forall>w \<in> set (all_weeks campaigns). CHR ''_'' \<notin> set (week_start w)"
      and "x \<in> set (aggregateWeeklyPerformance getTime campaigns)"
    then show "pair_bucket (weekStart x) (weekEnd x) (all_weeks campaigns) = Some x"
      by (rule output_pair_buckets)
  next
    fix w
    assume "\<forall>w \<in> set (all_weeks campaigns). CHR ''_'' \<notin> set (week_start w)"
      and "w \<in> set (all_weeks campaigns)"
    then show "\<exists>x \<in> set (aggregateWeeklyPerformance getTime campaigns).
              weekStart x = week_start w \<and> weekEnd x = week_end w"
      by (rule output_covers_entries)
  next
    show "distinct (map (\<lambda>x. (weekStart x, weekEnd x)) (aggregateWeeklyPerformance getTime campaigns))"
      by (rule output_pairs_distinct)
  qed
  have old: "distinct (Map_keys (weekly_totals campaigns))
   \<and> (\<forall>k. Map_get (weekly_totals campaigns) k = bucket k (all_weeks campaigns))
   \<and> (week_start a = week_start b \<and> week_end a = week_end b \<longrightarrow> week_key a = week_key b)
   \<and> (CHR ''_'' \<notin> set (week_start a) \<and> CHR ''_'' \<notin> set (week_start b) \<and> week_key a = week_key b \<longrightarrow>
        week_start a = week_start b \<and> week_end a = week_end b)
   \<and> mset (aggregateWeeklyPerformance getTime campaigns) = mset (Map_values (weekly_totals campaigns))
   \<and> ((\<forall>w \<in> set (all_weeks campaigns). isFinite (getTime (week_start w))) \<longrightarrow>
        sorted_wrt (\<lambda>x y. js_le (getTime (weekStart x)) (getTime (weekStart y)))
          (aggregateWeeklyPerformance getTime campaigns))"
    by (rule weekly_buckets_by_key)
  show ?thesis
    by (rule conjI [OF new old])
qed

theorem weekly_buckets_by_key_and_sorted_witness:
  "(week_key (week_stat ''2024-01-01'' ''2024-01-07'' 10 20) =
     week_key (week_stat ''2024-01-01'' ''2024-01-07'' 5 8)
   \<and> week_key (week_stat ''2024-01-01'' ''2024-01-07'' 10 20) \<noteq>
       week_key (week_stat ''2024-01-08'' ''2024-01-14'' 1 2)
   \<and> aggregateWeeklyPerformance example_getTime
        [week_campaign [week_stat ''2024-01-15'' ''2024-01-21'' 4 6,
                        week_stat ''2024-01-01'' ''2024-01-07'' 10 20],
         week_campaign [week_stat ''2024-01-01'' ''2024-01-07'' 5 8,
                        week_stat ''2024-01-08'' ''2024-01-14'' 1 2]]
      = [\<lparr>weekStart = ''2024-01-01'', weekEnd = ''2024-01-07'', wa_spend = Fin 15, wa_revenue = Fin 28\<rparr>,
         \<lparr>weekStart = ''2024-01-08'', weekEnd = ''2024-01-14'', wa_spend = Fin 1, wa_revenue = Fin 2\<rparr>,
         \<lparr>weekStart = ''2024-01-15'', weekEnd = ''2024-01-21'', wa_spend = Fin 4, wa_revenue = Fin 6\<rparr>]
   \<and> sorted_wrt (\<lambda>x y. js_le (example_getTime (weekStart x)) (example_getTime (weekStart y)))
        (aggregateWeeklyPerformance example_getTime
          [week_campaign [week_stat ''2024-01-15'' ''2024-01-21'' 4 6,
                          week_stat ''2024-01-01'' ''2024-01-07'' 10 20],
           week_campaign [week_stat ''2024-01-01'' ''2024-01-07'' 5 8,
                          week_stat ''2024-01-08'' ''2024-01-14'' 1 2]]))
   \<and> (pair_bucket ''2024-01-01'' ''2024-01-07''
       (all_weeks
        [week_campaign [week_stat ''2024-01-15'' ''2024-01-21'' 4 6,
                        week_stat ''2024-01-01'' ''2024-01-07'' 10 20],
         week_campaign [week_stat ''2024-01-01'' ''2024-01-07'' 5 8,
                        week_stat ''2024-01-08'' ''2024-01-14'' 1 2]]) =
       Some \<lparr>weekStart = ''2024-01-01'', weekEnd = ''2024-01-07'', wa_spend = Fin 15, wa_revenue = Fin 28\<rparr>
   \<and> (\<exists>x \<in> set (aggregateWeeklyPerformance example_getTime
        [week_campaign [week_stat ''2024-01-15'' ''2024-01-21'' 4 6,
                        week_stat ''2024-01-01'' ''2024-01-07'' 10 20],
         week_campaign [week_stat ''2024-01-01'' ''2024-01-07'' 5 8,
                        week_stat ''2024-01-08'' ''2024-01-14'' 1 2]]).
         weekStart x = ''2024-01-08'' \<and> weekEnd x = ''2024-01-14''))"
proof -
  let ?cs = "[week_campaign [week_stat ''2024-01-15'' ''2024-01-21'' 4 6,
                        week_stat ''2024-01-01'' ''2024-01-07'' 10 20],
         week_campaign [week_stat ''2024-01-01'' ''2024-01-07'' 5 8,
                        week_stat ''2024-01-08'' ''2024-01-14'' 1 2]]"
  have old: "week_key (week_stat ''2024-01-01'' ''2024-01-07'' 10 20) =
     week_key (week_stat ''2024-01-01'' ''2024-01-07'' 5 8)
   \<and> week_key (week_stat ''2024-01-01'' ''2024-01-07'' 10 20) \<noteq>
       week_key (week_stat ''2024-01-08'' ''2024-01-14'' 1 2)
   \<and> aggregateWeeklyPerformance example_getTime
        [week_campaign [week_stat ''2024-01-15'' ''2024-01-21'' 4 6,
                        week_stat ''2024-01-01'' ''2024-01-07'' 10 20],
         week_campaign [week_stat ''2024-01-01'' ''2024-01-07'' 5 8,
                        week_stat ''2024-01-08'' ''2024-01-14'' 1 2]]
      = [\<lparr>weekStart = ''2024-01-01'', weekEnd = ''2024-01-07'', wa_spend = Fin 15, wa_revenue = Fin 28\<rparr>,
         \<lparr>weekStart = ''2024-01-08'', weekEnd = ''2024-01-14'', wa_spend = Fin 1, wa_revenue = Fin 2\<rparr>,
         \<lparr>weekStart = ''2024-01-15'', weekEnd = ''2024-01-21'', wa_spend = Fin 4, wa_revenue = Fin 6\<rparr>]
   \<and> sorted_wrt (\<lambda>x y. js_le (example_getTime (weekStart x)) (example_getTime (weekStart y)))
        (aggregateWeeklyPerformance example_getTime
          [week_campaign [week_stat ''2024-01-15'' ''2024-01-21'' 4 6,
                          week_stat ''2024-01-01'' ''2024-01-07'' 10 20],
           week_campaign [week_stat ''2024-01-01'' ''2024-01-07'' 5 8,
                          week_stat ''2024-01-08'' ''2024-01-14'' 1 2]])"
  proof -
    let ?a = "week_stat ''2024-01-01'' ''2024-01-07'' 10 20"
    let ?b = "week_stat ''2024-01-01'' ''2024-01-07'' 5 8"
    let ?c = "week_stat ''2024-01-08'' ''2024-01-14'' 1 2"
    let ?cs = "[week_campaign [week_stat ''2024-01-15'' ''2024-01-21'' 4 6, ?a], week_campaign [?b, ?c]]"
    have same: "week_start ?a = week_start ?b \<and> week_end ?a = week_end ?b"
      by (simp add: week_stat_def)
    have plain: "CHR ''_'' \<notin> set (week_start ?a) \<and> CHR ''_'' \<notin> set (week_start ?c)"
      by (simp add: week_stat_def)
    have differ: "week_start ?a \<noteq> week_start ?c"
      by (simp add: week_stat_def)
    have dates: "\<forall>w \<in> set (all_weeks ?cs). isFinite (example_getTime (week_start w))"
      by (simp add: all_weeks_def week_campaign_def or_empty_def week_stat_def example_getTime_def)
    have result: "aggregateWeeklyPerformance example_getTime ?cs
        = [\<lparr>weekStart = ''2024-01-01'', weekEnd = ''2024-01-07'', wa_spend = Fin 15, wa_revenue = Fin 28\<rparr>,
           \<lparr>weekStart = ''2024-01-08'', weekEnd = ''2024-01-14'', wa_spend = Fin 1, wa_revenue = Fin 2\<rparr>,
           \<lparr>weekStart = ''2024-01-15'', weekEnd = ''2024-01-21'', wa_spend = Fin 4, wa_revenue = Fin 6\<rparr>]"
      by code_simp
    from same weekly_buckets_by_key_and_sorted [where a = ?a and b = ?b, THEN conjunct2]
    have w1: "week_key ?a = week_key ?b" by blast
    from plain differ weekly_buckets_by_key_and_sorted [where a = ?a and b = ?c, THEN conjunct2]
    have w2: "week_key ?a \<noteq> week_key ?c" by blast
    from dates weekly_buckets_by_key_and_sorted [where campaigns = ?cs and getTime = example_getTime, THEN conjunct2]
    have w3: "sorted_wrt (\<lambda>x y. js_le (example_getTime (weekStart x)) (example_getTime (weekStart y)))
          (aggregateWeeklyPerformance example_getTime ?cs)" by blast
    from w1 w2 w3 result show ?thesis by blast
  qed
  have plain: "\<forall>w \<in> set (all_weeks ?cs). CHR ''_'' \<notin> set (week_start w)"
    by (simp add: all_weeks_def week_campaign_def or_empty_def week_stat_def)
  have result: "aggregateWeeklyPerformance example_getTime ?cs
      = [\<lparr>weekStart = ''2024-01-01'', weekEnd = ''2024-01-07'', wa_spend = Fin 15, wa_revenue = Fin 28\<rparr>,
         \<lparr>weekStart = ''2024-01-08'', weekEnd = ''2024-01-14'', wa_spend = Fin 1, wa_revenue = Fin 2\<rparr>,
         \<lparr>weekStart = ''2024-01-15'', weekEnd = ''2024-01-21'', wa_spend = Fin 4, wa_revenue = Fin 6\<rparr>]"
    using old by blast
  have entry: "week_stat ''2024-01-08'' ''2024-01-14'' 1 2 \<in> set (all_weeks ?cs)"
    by (simp add: all_weeks_def week_campaign_def or_empty_def)
  note pairs = weekly_buckets_by_key_and_sorted [where campaigns = ?cs and getTime = example_getTime, THEN conjunct1,
      THEN conjunct1, THEN mp, OF plain]
  have n1: "pair_bucket ''2024-01-01'' ''2024-01-07'' (all_weeks ?cs) =
       Some \<lparr>weekStart = ''2024-01-01'', weekEnd = ''2024-01-07'', wa_spend = Fin 15, wa_revenue = Fin 28\<rparr>"
    using pairs [THEN conjunct1, rule_format,
        of "\<lparr>weekStart = ''2024-01-01'', weekEnd = ''2024-01-07'', wa_spend = Fin 15, wa_revenue = Fin 28\<rparr>"]
    by (simp add: result)
  have n2: "\<exists>x \<in> set (aggregateWeeklyPerformance example_getTime ?cs).
         weekStart x = ''2024-01-08'' \<and> weekEnd x = ''2024-01-14''"
    using pairs [THEN conjunct2, rule_format, OF entry] by (simp add: week_stat_def)
  show ?thesis
    by (rule conjI [OF old conjI [OF n1 n2]])
qed

end
